theory Spec2Isabelle
  imports Complex_Main "HOL-Library.Word"
begin

section \<open>Python values, errors and arrays\<close>

text \<open>
  The exceptions the modelled functions of \<^verbatim>\<open>seg.py\<close> can raise. A function that can
  raise returns \<open>py_error + 'a\<close>, with \<open>Inl\<close> the exception.
\<close>

datatype py_error =
    IndexError
  | KeyError string
  | ValueError
  | AttributeError
  | OverflowError
  | CvError

text \<open>A value read by \<^verbatim>\<open>json.load\<close>.\<close>

datatype jval =
    JNull
  | JBool bool
  | JNum real
  | JStr string
  | JArr "jval list"
  | JObj "(string \<times> jval) list"

text \<open>
  A two-dimensional NumPy array is its shape and its cells; a cell is read only inside
  the shape. A mask is a boolean array, an image holds one (B, G, R) triple of 8-bit
  channels per cell.
\<close>

record 'a ndarray =
  nrows :: nat
  ncols :: nat
  cell :: "nat \<Rightarrow> nat \<Rightarrow> 'a"

type_synonym mask = "bool ndarray"
type_synonym pixel = "8 word \<times> 8 word \<times> 8 word"
type_synonym image = "pixel ndarray"

definition same_shape :: "'a ndarray \<Rightarrow> 'b ndarray \<Rightarrow> bool" where
  "same_shape a b \<longleftrightarrow> nrows a = nrows b \<and> ncols a = ncols b"

text \<open>
  \<^verbatim>\<open>np.where(mask)\<close>: the coordinates of the set cells in row-major order; \<^verbatim>\<open>ys\<close> is the
  list of first components and \<^verbatim>\<open>xs\<close> the list of second components.
\<close>

definition np_where :: "mask \<Rightarrow> (nat \<times> nat) list" where
  "np_where m = concat (map (\<lambda>y. map (\<lambda>x. (y, x)) (filter (cell m y) [0..<ncols m])) [0..<nrows m])"

text \<open>
  Python floats and NumPy \<^verbatim>\<open>float64\<close> values are IEEE doubles. A double is modelled by
  the real number it denotes, and \<open>fl\<close> rounds a real to the nearest double: 53
  significant bits, ties to the even significand. Every operation on doubles is the exact
  operation followed by \<open>fl\<close>, and a decimal literal is \<open>fl\<close> of its value; the literals
  0.25, 0.5, 2.0, 2.5, 120 and 130 are doubles as they stand. The exponent is not
  bounded, since the values of this program stay far from overflow and underflow. The
  integers of this program (coordinates, sizes and pixel counts of an array that fits in
  memory) are below \<open>2 ^ 53\<close>, so their conversion to a double is exact.
\<close>

definition round_even :: "real \<Rightarrow> int" where
  "round_even y =
     (let f = \<lfloor>y\<rfloor>; d = y - of_int f
      in if d < 1 / 2 then f else if 1 / 2 < d then f + 1 else if even f then f else f + 1)"

definition fl :: "real \<Rightarrow> real" where
  "fl x =
     (if x = 0 then 0
      else (let e = \<lfloor>log 2 \<bar>x\<bar>\<rfloor> - 52
            in of_int (round_even (x / 2 powi e)) * 2 powi e))"

text \<open>
  \<^verbatim>\<open>np.mean(image[mask == 1], axis=0)\<close> over the listed cells: the mean of each channel,
  the exact sum of the 8-bit values divided by the count.
\<close>

definition np_mean :: "image \<Rightarrow> (nat \<times> nat) list \<Rightarrow> real \<times> real \<times> real" where
  "np_mean img ps =
     (let n = real (length ps);
          pix = map (\<lambda>(y, x). cell img y x) ps
      in (fl (sum_list (map (\<lambda>(b, g, r). real (unat b)) pix) / n),
          fl (sum_list (map (\<lambda>(b, g, r). real (unat g)) pix) / n),
          fl (sum_list (map (\<lambda>(b, g, r). real (unat r)) pix) / n)))"

section \<open>Region classification (\<^verbatim>\<open>classify_region\<close>, seg.py lines 47-129)\<close>

text \<open>The local variables of \<^verbatim>\<open>classify_region\<close> that its decision rules read.\<close>

record region_stats =
  img_h :: nat
  img_w :: nat
  box_height :: nat
  box_width :: nat
  box_area :: nat
  mask_area :: nat
  area_ratio :: real
  aspect :: real
  center_y :: real
  center_x :: real
  avg_b :: real
  avg_g :: real
  avg_r :: real

text \<open>
  Lines 66-83: the statistics of a mask with at least one set cell. Indexing the image
  with a mask of another shape raises IndexError.
\<close>

definition compute_stats :: "mask \<Rightarrow> image option \<Rightarrow> py_error + region_stats" where
  "compute_stats m img =
     (let ps = np_where m; ys = map fst ps; xs = map snd ps;
          h = nrows m; w = ncols m;
          min_y = Min (set ys); max_y = Max (set ys);
          min_x = Min (set xs); max_x = Max (set xs);
          bh = max_y - min_y + 1;
          bw = max_x - min_x + 1;
          st = \<lparr> img_h = h, img_w = w,
                 box_height = bh, box_width = bw, box_area = bh * bw,
                 mask_area = length ps,
                 area_ratio = fl (real (length ps) / real (h * w)),
                 aspect = fl (real bw / fl (real bh + fl (1 / 100000))),
                 center_y = fl (fl (real (min_y + max_y) / 2) / real h),
                 center_x = fl (fl (real (min_x + max_x) / 2) / real w),
                 avg_b = 0, avg_g = 0, avg_r = 0 \<rparr>
      in case img of
           None \<Rightarrow> Inr st
         | Some im \<Rightarrow>
             if \<not> same_shape m im then Inl IndexError
             else if length ps > 0
               then (case np_mean im ps of (b, g, r) \<Rightarrow>
                       Inr (st \<lparr> avg_b := b, avg_g := g, avg_r := r \<rparr>))
               else Inr st)"

text \<open>The predicates of the decision rules, lines 89-118, in the order of the source.\<close>

definition roof_rule :: "region_stats \<Rightarrow> bool" where
  "roof_rule st \<longleftrightarrow>
     center_y st < fl 0.2 \<and> aspect st > 2.5 \<and>
     real (box_height st) < fl (fl 0.15 * real (img_h st))"

definition balcony_rule :: "region_stats \<Rightarrow> bool" where
  "balcony_rule st \<longleftrightarrow>
     (fl 0.2 < center_y st \<and> center_y st < 0.5) \<and> aspect st > 2.0 \<and>
     (fl 0.08 < fl (real (box_height st) / real (img_h st)) \<and>
      fl (real (box_height st) / real (img_h st)) < 0.25)"

definition pillars_rule :: "region_stats \<Rightarrow> bool" where
  "pillars_rule st \<longleftrightarrow>
     aspect st < 0.25 \<and> real (box_height st) > fl (fl 0.4 * real (img_h st)) \<and>
     (center_x st < fl 0.2 \<or> center_x st > fl 0.8)"

definition side_walls_rule :: "region_stats \<Rightarrow> bool" where
  "side_walls_rule st \<longleftrightarrow>
     area_ratio st > fl 0.15 \<and> (center_x st < fl 0.3 \<or> center_x st > fl 0.7)"

definition upper_walls_rule :: "region_stats \<Rightarrow> bool" where
  "upper_walls_rule st \<longleftrightarrow> area_ratio st > fl 0.15 \<and> center_y st < 0.5"

definition main_walls_rule :: "region_stats \<Rightarrow> bool" where
  "main_walls_rule st \<longleftrightarrow> area_ratio st > fl 0.15 \<and> center_y st \<ge> 0.5"

definition doors_shape :: "region_stats \<Rightarrow> bool" where
  "doors_shape st \<longleftrightarrow>
     center_y st > fl 0.7 \<and> aspect st > fl 0.6 \<and>
     real (box_area st) > fl (fl (fl 0.01 * real (img_h st)) * real (img_w st))"

definition doors_dark :: "region_stats \<Rightarrow> bool" where
  "doors_dark st \<longleftrightarrow> avg_r st < 120 \<and> avg_g st < 120 \<and> avg_b st < 120"

definition windows_shape :: "region_stats \<Rightarrow> bool" where
  "windows_shape st \<longleftrightarrow>
     (aspect st < 0.5 \<and> real (box_height st) > fl (fl 0.1 * real (img_h st))) \<or>
     (center_y st < fl 0.6 \<and>
      real (box_area st) < fl (fl (fl 0.15 * real (img_h st)) * real (img_w st)))"

definition windows_blue :: "region_stats \<Rightarrow> bool" where
  "windows_blue st \<longleftrightarrow> avg_b st > avg_r st \<and> avg_b st > avg_g st \<and> avg_b st > 130"

text \<open>
  Lines 89-129: the chain of \<^verbatim>\<open>if ...: return\<close> statements. The doors rule is a nested
  \<^verbatim>\<open>if\<close> with no \<^verbatim>\<open>else\<close>: control falls through to the windows rule unless both tests
  hold. The windows rule keeps both branches of its colour test.
\<close>

definition classify_rules :: "region_stats \<Rightarrow> string" where
  "classify_rules st =
     (if roof_rule st then ''roof''
      else if balcony_rule st then ''balcony''
      else if pillars_rule st then ''pillars''
      else if side_walls_rule st then ''side_walls''
      else if upper_walls_rule st then ''upper_lower_walls''
      else if main_walls_rule st then ''main_walls''
      else if doors_shape st \<and> doors_dark st then ''doors''
      else if windows_shape st
        then (if windows_blue st then ''windows'' else ''windows'')
      else if area_ratio st > fl 0.10 then ''main_walls''
      else ''main_walls'')"

text \<open>
  \<^verbatim>\<open>classify_region(mask, image=None)\<close>: an empty mask returns before anything else is
  computed (lines 61-63).
\<close>

definition classify_region :: "mask \<Rightarrow> image option \<Rightarrow> py_error + string" where
  "classify_region m img =
     (let ps = np_where m; ys = map fst ps; xs = map snd ps
      in if length ys = 0 \<or> length xs = 0 then Inr ''main_walls''
         else (case compute_stats m img of
                 Inl e \<Rightarrow> Inl e
               | Inr st \<Rightarrow> Inr (classify_rules st)))"

section \<open>Colour conversion (\<^verbatim>\<open>hex_to_bgr\<close>, seg.py lines 31-45)\<close>

text \<open>
  \<^verbatim>\<open>s.lstrip('#')\<close> drops every leading \<^verbatim>\<open>#\<close>; \<^verbatim>\<open>s[i:j]\<close> is a slice, which never raises
  and is shorter than \<open>j - i\<close> when the string ends early.
\<close>

definition lstrip :: "char \<Rightarrow> string \<Rightarrow> string" where
  "lstrip c s = dropWhile (\<lambda>d. d = c) s"

definition slice :: "nat \<Rightarrow> nat \<Rightarrow> string \<Rightarrow> string" where
  "slice i j s = take (j - i) (drop i s)"

definition hex_digit :: "char \<Rightarrow> int option" where
  "hex_digit c =
     (let n = (of_char c :: nat)
      in if 48 \<le> n \<and> n \<le> 57 then Some (int n - 48)
         else if 97 \<le> n \<and> n \<le> 102 then Some (int n - 87)
         else if 65 \<le> n \<and> n \<le> 70 then Some (int n - 55)
         else None)"

text \<open>
  The characters \<^verbatim>\<open>int()\<close> strips around a literal: tab, line feed, vertical tab, form
  feed, carriage return and space, and of the code points 128 to 255 the two Unicode
  spaces 133 and 160.
\<close>

definition py_space :: "char \<Rightarrow> bool" where
  "py_space c =
     (let n = (of_char c :: nat)
      in (9 \<le> n \<and> n \<le> 13) \<or> n = 32 \<or> n = 133 \<or> n = 160)"

text \<open>
  \<^verbatim>\<open>int(t, 16)\<close> for a slice \<open>t\<close> of at most two characters, the only strings
  \<^verbatim>\<open>hex_to_bgr\<close> passes. Besides two hexadecimal digits Python accepts one digit, a digit
  with a space on either side, and a signed digit; everything else raises ValueError.
\<close>

fun int16_of_slice :: "string \<Rightarrow> py_error + int" where
  "int16_of_slice [c] = (case hex_digit c of Some a \<Rightarrow> Inr a | None \<Rightarrow> Inl ValueError)"
| "int16_of_slice [c, d] =
     (case (hex_digit c, hex_digit d) of
        (Some a, Some b) \<Rightarrow> Inr (16 * a + b)
      | (Some a, None) \<Rightarrow> if py_space d then Inr a else Inl ValueError
      | (None, Some b) \<Rightarrow>
          if py_space c \<or> c = CHR ''+'' then Inr b
          else if c = CHR ''-'' then Inr (- b)
          else Inl ValueError
      | (None, None) \<Rightarrow> Inl ValueError)"
| "int16_of_slice t = Inl ValueError"

text \<open>A value that is not a string has no \<^verbatim>\<open>lstrip\<close>: AttributeError.\<close>

definition hex_to_bgr :: "jval \<Rightarrow> py_error + (int \<times> int \<times> int)" where
  "hex_to_bgr hex_color =
     (case hex_color of
        JStr s \<Rightarrow>
          (let hc = lstrip (CHR ''#'') s
           in case int16_of_slice (slice 0 2 hc) of
                Inl e \<Rightarrow> Inl e
              | Inr r \<Rightarrow>
                  (case int16_of_slice (slice 2 4 hc) of
                     Inl e \<Rightarrow> Inl e
                   | Inr g \<Rightarrow>
                       (case int16_of_slice (slice 4 6 hc) of
                          Inl e \<Rightarrow> Inl e
                        | Inr b \<Rightarrow> Inr (b, g, r))))
      | _ \<Rightarrow> Inl AttributeError)"

section \<open>Style resolution (\<^verbatim>\<open>recommend_style_for_region\<close>, seg.py lines 131-161)\<close>

text \<open>
  A Python dict with string keys is an association list in insertion order; a key is
  read through its first binding. The style library maps a region name to a dict from
  style names to lists of records, and a record is a dict of JSON values: nothing in the
  code checks which fields a record has.
\<close>

type_synonym 'v pydict = "(string \<times> 'v) list"
type_synonym style_rec = "jval pydict"
type_synonym catalog = "style_rec list pydict pydict"
type_synonym style_fields = "jval \<times> jval \<times> jval \<times> jval \<times> jval \<times> jval"

text \<open>\<^verbatim>\<open>d.get(k, default)\<close> and \<^verbatim>\<open>d[k]\<close>; \<^verbatim>\<open>d.get(k)\<close> is \<open>map_of d k\<close>.\<close>

definition dict_get :: "'v pydict \<Rightarrow> string \<Rightarrow> 'v \<Rightarrow> 'v" where
  "dict_get d k dflt = (case map_of d k of None \<Rightarrow> dflt | Some v \<Rightarrow> v)"

definition dict_item :: "'v pydict \<Rightarrow> string \<Rightarrow> py_error + 'v" where
  "dict_item d k = (case map_of d k of None \<Rightarrow> Inl (KeyError k) | Some v \<Rightarrow> Inr v)"

text \<open>
  The random source is a sequence of draws. \<^verbatim>\<open>random.choice(seq)\<close> raises IndexError on
  an empty sequence; otherwise it takes one draw, which selects an index below the
  length, and leaves the rest of the sequence.
\<close>

type_synonym rng = "nat \<Rightarrow> nat"

definition random_choice :: "'a list \<Rightarrow> rng \<Rightarrow> py_error + ('a \<times> rng)" where
  "random_choice seq rnd =
     (if seq = [] then Inl IndexError
      else Inr (seq ! (rnd 0 mod length seq), \<lambda>i. rnd (Suc i)))"

text \<open>
  Lines 154-157: the loop over the regions of the library, entered with the keys still
  to visit; it stops at the first region with a non-empty list for the style.
\<close>

fun scan_regions ::
  "catalog \<Rightarrow> string list \<Rightarrow> string \<Rightarrow> style_rec list \<Rightarrow> py_error + style_rec list" where
  "scan_regions style_library [] style style_list = Inr style_list"
| "scan_regions style_library (region # rest) style style_list =
     (case dict_item style_library region of
        Inl e \<Rightarrow> Inl e
      | Inr styles \<Rightarrow>
          (case map_of styles style of
             None \<Rightarrow> scan_regions style_library rest style style_list
           | Some [] \<Rightarrow> scan_regions style_library rest style style_list
           | Some (r # rs) \<Rightarrow> dict_item styles style))"

text \<open>Lines 145-157: the candidate list, through the two fallbacks.\<close>

definition style_list_for :: "string \<Rightarrow> string \<Rightarrow> catalog \<Rightarrow> py_error + style_rec list" where
  "style_list_for region_type style style_library =
     (let region_styles = dict_get style_library region_type [];
          style_list = dict_get region_styles style [];
          style_list =
            (if style_list = []
             then dict_get (dict_get style_library ''main_walls'' []) style []
             else style_list)
      in if style_list = []
         then scan_regions style_library (map fst style_library) style style_list
         else Inr style_list)"

text \<open>Line 161: the six fields of the chosen record, read left to right.\<close>

definition rec_fields :: "style_rec \<Rightarrow> py_error + style_fields" where
  "rec_fields r =
     (case dict_item r ''color'' of Inl e \<Rightarrow> Inl e | Inr color \<Rightarrow>
     (case dict_item r ''texture'' of Inl e \<Rightarrow> Inl e | Inr texture \<Rightarrow>
     (case dict_item r ''material'' of Inl e \<Rightarrow> Inl e | Inr material \<Rightarrow>
     (case dict_item r ''finish'' of Inl e \<Rightarrow> Inl e | Inr finish \<Rightarrow>
     (case dict_item r ''rating'' of Inl e \<Rightarrow> Inl e | Inr rating \<Rightarrow>
     (case dict_item r ''keywords'' of Inl e \<Rightarrow> Inl e | Inr keywords \<Rightarrow>
        Inr (color, texture, material, finish, rating, keywords)))))))"

definition recommend_style_for_region ::
  "string \<Rightarrow> string \<Rightarrow> catalog \<Rightarrow> rng \<Rightarrow> py_error + (style_fields \<times> rng)" where
  "recommend_style_for_region region_type style style_library rnd =
     (case style_list_for region_type style style_library of
        Inl e \<Rightarrow> Inl e
      | Inr style_list \<Rightarrow>
          (case random_choice style_list rnd of
             Inl e \<Rightarrow> Inl e
           | Inr (r, rnd') \<Rightarrow>
               (case rec_fields r of
                  Inl e \<Rightarrow> Inl e
                | Inr flds \<Rightarrow> Inr (flds, rnd'))))"

section \<open>Styling (\<^verbatim>\<open>apply_style_recommendations\<close>, seg.py lines 163-201)\<close>

text \<open>
  \<^verbatim>\<open>output_img[mask == 1] = color_bgr\<close>: a mask of another shape raises IndexError; the
  three integers are stored as 8-bit channels, and one outside 0..255 raises
  OverflowError (NumPy 2); then every cell under the mask is overwritten.
\<close>

definition to_uint8 :: "int \<Rightarrow> py_error + 8 word" where
  "to_uint8 v = (if 0 \<le> v \<and> v \<le> 255 then Inr (word_of_int v) else Inl OverflowError)"

definition to_pixel :: "int \<times> int \<times> int \<Rightarrow> py_error + pixel" where
  "to_pixel c =
     (case c of (c0, c1, c2) \<Rightarrow>
        (case to_uint8 c0 of Inl e \<Rightarrow> Inl e | Inr p0 \<Rightarrow>
        (case to_uint8 c1 of Inl e \<Rightarrow> Inl e | Inr p1 \<Rightarrow>
        (case to_uint8 c2 of Inl e \<Rightarrow> Inl e | Inr p2 \<Rightarrow> Inr (p0, p1, p2)))))"

definition covers :: "mask \<Rightarrow> nat \<Rightarrow> nat \<Rightarrow> bool" where
  "covers m y x \<longleftrightarrow> y < nrows m \<and> x < ncols m \<and> cell m y x"

definition set_masked :: "image \<Rightarrow> mask \<Rightarrow> int \<times> int \<times> int \<Rightarrow> py_error + image" where
  "set_masked output_img m color_bgr =
     (if \<not> same_shape m output_img then Inl IndexError
      else (case to_pixel color_bgr of
              Inl e \<Rightarrow> Inl e
            | Inr p \<Rightarrow>
                Inr (output_img \<lparr> cell := \<lambda>y x. if covers m y x then p else cell output_img y x \<rparr>)))"

text \<open>
  Each mask dictionary of the segmenter is represented by its \<^verbatim>\<open>segmentation\<close> array.
  One line is printed per region: its index, its label and the six fields. The loop of
  lines 180-199 carries the output image, the lines printed so far and the random source;
  the region is classified against the original image, not the output.
\<close>

type_synonym printed = "nat \<times> string \<times> style_fields"

fun style_loop ::
  "image \<Rightarrow> string \<Rightarrow> catalog \<Rightarrow> nat \<Rightarrow> mask list \<Rightarrow> image \<Rightarrow> printed list \<Rightarrow> rng
     \<Rightarrow> py_error + (image \<times> printed list \<times> rng)" where
  "style_loop original_img style style_library idx [] output_img out rnd =
     Inr (output_img, out, rnd)"
| "style_loop original_img style style_library idx (m # masks) output_img out rnd =
     (case classify_region m (Some original_img) of
        Inl e \<Rightarrow> Inl e
      | Inr region_type \<Rightarrow>
          (case recommend_style_for_region region_type style style_library rnd of
             Inl e \<Rightarrow> Inl e
           | Inr (flds, rnd') \<Rightarrow>
               (case hex_to_bgr (fst flds) of
                  Inl e \<Rightarrow> Inl e
                | Inr color_bgr \<Rightarrow>
                    (case set_masked output_img m color_bgr of
                       Inl e \<Rightarrow> Inl e
                     | Inr output_img' \<Rightarrow>
                         style_loop original_img style style_library (Suc idx) masks
                           output_img' (out @ [(idx, region_type, flds)]) rnd'))))"

definition apply_style_recommendations ::
  "image \<Rightarrow> mask list \<Rightarrow> string \<Rightarrow> catalog \<Rightarrow> rng
     \<Rightarrow> py_error + (image \<times> printed list \<times> rng)" where
  "apply_style_recommendations original_img masks style style_library rnd =
     style_loop original_img style style_library 0 masks original_img [] rnd"

section \<open>Loading and blending (\<^verbatim>\<open>main\<close>, seg.py lines 203-287)\<close>






section \<open>The second copy (scripts/seg.py lines 14-101)\<close>

text \<open>
  The functions of \<^verbatim>\<open>scripts/seg.py\<close>, translated from that file on their own; the suffix
  \<open>_s\<close> marks them. Lines 14-19: \<^verbatim>\<open>hex_to_bgr\<close>.
\<close>

definition hex_to_bgr_s :: "jval \<Rightarrow> py_error + (int \<times> int \<times> int)" where
  "hex_to_bgr_s hex_color =
     (case hex_color of
        JStr s \<Rightarrow>
          (let stripped = lstrip (CHR ''#'') s
           in case int16_of_slice (slice 0 2 stripped) of
                Inl e \<Rightarrow> Inl e
              | Inr r \<Rightarrow>
                  (case int16_of_slice (slice 2 4 stripped) of
                     Inl e \<Rightarrow> Inl e
                   | Inr g \<Rightarrow>
                       (case int16_of_slice (slice 4 6 stripped) of
                          Inl e \<Rightarrow> Inl e
                        | Inr b \<Rightarrow> Inr (b, g, r))))
      | _ \<Rightarrow> Inl AttributeError)"

text \<open>Lines 50-72: the heuristics, on the local variables they read.\<close>

definition classify_rules_s ::
  "nat \<Rightarrow> nat \<Rightarrow> nat \<Rightarrow> nat \<Rightarrow> real \<Rightarrow> real \<Rightarrow> real \<Rightarrow> real \<Rightarrow> real \<Rightarrow> real \<Rightarrow> real \<Rightarrow> string" where
  "classify_rules_s h w bh ba ar asp cy cx ab ag ar' =
     (if cy < fl 0.2 \<and> asp > 2.5 \<and> real bh < fl (fl 0.15 * real h) then ''roof''
      else if (fl 0.2 < cy \<and> cy < 0.5) \<and> asp > 2.0 \<and>
              (fl 0.08 < fl (real bh / real h) \<and> fl (real bh / real h) < 0.25)
        then ''balcony''
      else if asp < 0.25 \<and> real bh > fl (fl 0.4 * real h) \<and> (cx < fl 0.2 \<or> cx > fl 0.8)
        then ''pillars''
      else if ar > fl 0.15 \<and> (cx < fl 0.3 \<or> cx > fl 0.7) then ''side_walls''
      else if ar > fl 0.15 \<and> cy < 0.5 then ''upper_lower_walls''
      else if ar > fl 0.15 \<and> cy \<ge> 0.5 then ''main_walls''
      else if (cy > fl 0.7 \<and> asp > fl 0.6 \<and> real ba > fl (fl (fl 0.01 * real h) * real w)) \<and>
              (ar' < 120 \<and> ag < 120 \<and> ab < 120)
        then ''doors''
      else if (asp < 0.5 \<and> real bh > fl (fl 0.1 * real h)) \<or>
              (cy < fl 0.6 \<and> real ba < fl (fl (fl 0.15 * real h) * real w))
        then (if ab > ar' \<and> ab > ag \<and> ab > 130 then ''windows'' else ''windows'')
      else if ar > fl 0.10 then ''main_walls''
      else ''main_walls'')"

text \<open>Lines 26-47, then the heuristics.\<close>

definition classify_region_s :: "mask \<Rightarrow> image option \<Rightarrow> py_error + string" where
  "classify_region_s m img =
     (let ps = np_where m; ys = map fst ps; xs = map snd ps
      in if length ys = 0 \<or> length xs = 0 then Inr ''main_walls''
         else
           (let h = nrows m; w = ncols m;
                min_y = Min (set ys); max_y = Max (set ys);
                min_x = Min (set xs); max_x = Max (set xs);
                bh = max_y - min_y + 1;
                bw = max_x - min_x + 1;
                ba = bh * bw;
                ma = length ps;
                ar = fl (real ma / real (h * w));
                asp = fl (real bw / fl (real bh + fl (1 / 100000)));
                cy = fl (fl (real (min_y + max_y) / 2) / real h);
                cx = fl (fl (real (min_x + max_x) / 2) / real w)
            in case (case img of
                       None \<Rightarrow> Inr (0, 0, 0)
                     | Some im \<Rightarrow>
                         if \<not> same_shape m im then Inl IndexError
                         else if length ps > 0 then Inr (np_mean im ps)
                         else Inr (0, 0, 0)) of
                 Inl e \<Rightarrow> Inl e
               | Inr (ab, ag, ar') \<Rightarrow> Inr (classify_rules_s h w bh ba ar asp cy cx ab ag ar')))"

text \<open>Lines 85-88: the loop of the second fallback.\<close>

fun scan_regions_s ::
  "catalog \<Rightarrow> string list \<Rightarrow> string \<Rightarrow> style_rec list \<Rightarrow> py_error + style_rec list" where
  "scan_regions_s style_library [] style style_list = Inr style_list"
| "scan_regions_s style_library (region # rest) style style_list =
     (case dict_item style_library region of
        Inl e \<Rightarrow> Inl e
      | Inr styles \<Rightarrow>
          (case map_of styles style of
             None \<Rightarrow> scan_regions_s style_library rest style style_list
           | Some [] \<Rightarrow> scan_regions_s style_library rest style style_list
           | Some (r # rs) \<Rightarrow> dict_item styles style))"

text \<open>Lines 78-90: \<^verbatim>\<open>recommend_style_for_region\<close>.\<close>

definition recommend_style_for_region_s ::
  "string \<Rightarrow> string \<Rightarrow> catalog \<Rightarrow> rng \<Rightarrow> py_error + (style_fields \<times> rng)" where
  "recommend_style_for_region_s region_type style style_library rnd =
     (let region_styles = dict_get style_library region_type [];
          style_list = dict_get region_styles style [];
          style_list =
            (if style_list = []
             then dict_get (dict_get style_library ''main_walls'' []) style []
             else style_list)
      in case (if style_list = []
               then scan_regions_s style_library (map fst style_library) style style_list
               else Inr style_list) of
           Inl e \<Rightarrow> Inl e
         | Inr style_list \<Rightarrow>
             (case random_choice style_list rnd of
                Inl e \<Rightarrow> Inl e
              | Inr (r, rnd') \<Rightarrow>
                  (case dict_item r ''color'' of Inl e \<Rightarrow> Inl e | Inr color \<Rightarrow>
                  (case dict_item r ''texture'' of Inl e \<Rightarrow> Inl e | Inr texture \<Rightarrow>
                  (case dict_item r ''material'' of Inl e \<Rightarrow> Inl e | Inr material \<Rightarrow>
                  (case dict_item r ''finish'' of Inl e \<Rightarrow> Inl e | Inr finish \<Rightarrow>
                  (case dict_item r ''rating'' of Inl e \<Rightarrow> Inl e | Inr rating \<Rightarrow>
                  (case dict_item r ''keywords'' of Inl e \<Rightarrow> Inl e | Inr keywords \<Rightarrow>
                     Inr ((color, texture, material, finish, rating, keywords), rnd')))))))))"

text \<open>Lines 92-101: \<^verbatim>\<open>apply_style_recommendations\<close> and its loop.\<close>

fun style_loop_s ::
  "image \<Rightarrow> string \<Rightarrow> catalog \<Rightarrow> nat \<Rightarrow> mask list \<Rightarrow> image \<Rightarrow> printed list \<Rightarrow> rng
     \<Rightarrow> py_error + (image \<times> printed list \<times> rng)" where
  "style_loop_s original_img style style_library idx [] output_img out rnd =
     Inr (output_img, out, rnd)"
| "style_loop_s original_img style style_library idx (m # masks) output_img out rnd =
     (case classify_region_s m (Some original_img) of
        Inl e \<Rightarrow> Inl e
      | Inr region_type \<Rightarrow>
          (case recommend_style_for_region_s region_type style style_library rnd of
             Inl e \<Rightarrow> Inl e
           | Inr (flds, rnd') \<Rightarrow>
               (case hex_to_bgr_s (fst flds) of
                  Inl e \<Rightarrow> Inl e
                | Inr color_bgr \<Rightarrow>
                    (case set_masked output_img m color_bgr of
                       Inl e \<Rightarrow> Inl e
                     | Inr output_img' \<Rightarrow>
                         style_loop_s original_img style style_library (Suc idx) masks
                           output_img' (out @ [(idx, region_type, flds)]) rnd'))))"

definition apply_style_recommendations_s ::
  "image \<Rightarrow> mask list \<Rightarrow> string \<Rightarrow> catalog \<Rightarrow> rng
     \<Rightarrow> py_error + (image \<times> printed list \<times> rng)" where
  "apply_style_recommendations_s original_img masks style style_library rnd =
     style_loop_s original_img style style_library 0 masks original_img [] rnd"

section \<open>The specification's terms\<close>

text \<open>
  The decision sequence of the specification, section 4.2: the rules in their order, each
  with its label, and the label of the first rule that matches.
\<close>

definition spec_rule_order :: "((region_stats \<Rightarrow> bool) \<times> string) list" where
  "spec_rule_order =
     [(roof_rule, ''roof''),
      (balcony_rule, ''balcony''),
      (pillars_rule, ''pillars''),
      (side_walls_rule, ''side_walls''),
      (upper_walls_rule, ''upper_lower_walls''),
      (main_walls_rule, ''main_walls''),
      (\<lambda>st. doors_shape st \<and> doors_dark st, ''doors''),
      (windows_shape, ''windows''),
      (\<lambda>st. area_ratio st > fl 0.10, ''main_walls''),
      (\<lambda>st. True, ''main_walls'')]"

fun first_match ::
  "((region_stats \<Rightarrow> bool) \<times> string) list \<Rightarrow> region_stats \<Rightarrow> string option" where
  "first_match [] st = None"
| "first_match ((p, l) # rules) st = (if p st then Some l else first_match rules st)"

text \<open>
  The fallback chain of the specification, section 4.3: the entry of the region, else
  the entry of \<^verbatim>\<open>main_walls\<close>, else the first non-empty entry over the regions in the order
  of the catalog. An absent entry counts as the empty list.
\<close>

definition spec_lookup :: "catalog \<Rightarrow> string \<Rightarrow> string \<Rightarrow> style_rec list" where
  "spec_lookup lib region style =
     (case map_of lib region of
        None \<Rightarrow> []
      | Some styles \<Rightarrow> (case map_of styles style of None \<Rightarrow> [] | Some opts \<Rightarrow> opts))"

definition spec_fallback_chain :: "catalog \<Rightarrow> string \<Rightarrow> string \<Rightarrow> style_rec list" where
  "spec_fallback_chain lib region style =
     (if spec_lookup lib region style \<noteq> [] then spec_lookup lib region style
      else if spec_lookup lib ''main_walls'' style \<noteq> [] then spec_lookup lib ''main_walls'' style
      else (case find (\<lambda>r. spec_lookup lib r style \<noteq> []) (map fst lib) of
              Some r \<Rightarrow> spec_lookup lib r style
            | None \<Rightarrow> []))"





text \<open>The pixel a printed line resolves to: its colour, converted and stored.\<close>

definition resolved_pixel :: "printed \<Rightarrow> py_error + pixel" where
  "resolved_pixel line =
     (case line of (idx, region_type, flds) \<Rightarrow>
        (case hex_to_bgr (fst flds) of Inl e \<Rightarrow> Inl e | Inr color_bgr \<Rightarrow> to_pixel color_bgr))"


section \<open>Example inputs\<close>

definition example_mask :: "nat \<Rightarrow> nat \<Rightarrow> (nat \<times> nat) list \<Rightarrow> mask" where
  "example_mask h w ps = \<lparr> nrows = h, ncols = w, cell = (\<lambda>y x. (y, x) \<in> set ps) \<rparr>"

definition flat_image :: "nat \<Rightarrow> nat \<Rightarrow> pixel \<Rightarrow> image" where
  "flat_image h w p = \<lparr> nrows = h, ncols = w, cell = (\<lambda>y x. p) \<rparr>"

text \<open>The record and the catalog of the end-to-end scenario of the specification.\<close>

definition example_option :: style_rec where
  "example_option =
     [(''color'', JStr ''#AABBCC''), (''texture'', JStr ''t''), (''material'', JStr ''m''),
      (''finish'', JStr ''f''), (''rating'', JNum 4), (''keywords'', JArr [JStr ''k''])]"

definition example_catalog :: catalog where
  "example_catalog = [(''main_walls'', [(''modern'', [example_option])])]"



text \<open>A second record, a catalog with both, and two overlapping masks of a 2 by 2 image.\<close>

definition dark_option :: style_rec where
  "dark_option =
     [(''color'', JStr ''#102030''), (''texture'', JStr ''u''), (''material'', JStr ''n''),
      (''finish'', JStr ''g''), (''rating'', JNum 3), (''keywords'', JArr [])]"

definition two_option_catalog :: catalog where
  "two_option_catalog = [(''main_walls'', [(''modern'', [example_option, dark_option])])]"

definition top_row_mask :: mask where
  "top_row_mask = example_mask 2 2 [(0, 0), (0, 1)]"

definition top_right_mask :: mask where
  "top_right_mask = example_mask 2 2 [(0, 1)]"

text \<open>
  A 29 by 100 mask whose box is one row of 29 cells at the bottom: its box area, 29, is
  where \<^verbatim>\<open>0.01 * h * w\<close> would be in exact arithmetic. A 4 by 2 mask that fills the left
  column.
\<close>

definition bottom_row_mask :: mask where
  "bottom_row_mask = example_mask 29 100 [(28, 0), (28, 28)]"

definition left_column_mask :: mask where
  "left_column_mask = example_mask 4 2 [(0, 0), (1, 0), (2, 0), (3, 0)]"

text \<open>
  Statistics that satisfy the roof rule and the side walls rule at once, written down
  directly as the specification's test asks.
\<close>

definition roof_side_stats :: region_stats where
  "roof_side_stats =
     \<lparr> img_h = 100, img_w = 100, box_height = 10, box_width = 30, box_area = 300,
       mask_area = 300, area_ratio = 0.25, aspect = 3, center_y = 0.125, center_x = 0.125,
       avg_b = 0, avg_g = 0, avg_r = 0 \<rparr>"

section \<open>Facts about the model\<close>

lemmas rule_defs = roof_rule_def balcony_rule_def pillars_rule_def side_walls_rule_def
  upper_walls_rule_def main_walls_rule_def doors_shape_def doors_dark_def windows_shape_def
  windows_blue_def

subsection \<open>Rounding to a double\<close>

lemma round_even_of_int: "round_even (of_int n) = n"
  by (simp add: round_even_def)

lemma floor_log2_eq:
  assumes "0 < x" "2 powi e \<le> x" "x < 2 powi (e + 1)"
  shows "\<lfloor>log 2 x\<rfloor> = e"
proof -
  have p: "(2::real) powr (of_int n) = 2 powi n" for n
    by (rule powr_real_of_int') simp_all
  have "2 powr (of_int e) \<le> x" using assms(2) by (simp only: p)
  moreover have "x < 2 powr (of_int (e + 1))" using assms(3) by (simp only: p)
  ultimately have "2 powr (of_int e) \<le> x \<and> x < 2 powr (of_int e + 1)" by simp
  then show ?thesis using assms(1) by (simp add: floor_log_eq_powr_iff)
qed

text \<open>
  The double nearest to a positive \<open>x\<close> below \<open>2 ^ 53\<close>: scale \<open>x\<close> by the power of two
  that brings it to 53 bits, round to an integer, scale back.
\<close>

lemma fl_eval:
  assumes "0 < x" "2 ^ 52 \<le> x * 2 ^ k" "x * 2 ^ k < 2 ^ 53"
  shows "fl x = of_int (round_even (x * 2 ^ k)) / 2 ^ k"
proof -
  have a: "2 powi (52 - int k) \<le> x"
    using assms(2) by (simp add: power_int_diff field_simps)
  have b: "x < 2 powi (52 - int k + 1)"
    using assms(3) by (simp add: power_int_diff power_int_add field_simps)
  have e: "\<lfloor>log 2 x\<rfloor> - 52 = - int k"
    using floor_log2_eq [OF assms(1) a b] by simp
  have p: "(2::real) powi (- int k) = 1 / 2 ^ k"
    by (simp add: power_int_minus field_simps)
  have "fl x = of_int (round_even (x / 2 powi (- int k))) * 2 powi (- int k)"
    using assms(1) by (simp add: fl_def Let_def e)
  then show ?thesis by (simp add: p)
qed

lemma fl_zero: "fl 0 = 0"
  by (simp add: fl_def)

text \<open>Rounding is monotone, and leaves the integers below \<open>2 ^ 53\<close> as they are.\<close>

lemma round_even_ge: "of_int n \<le> y \<Longrightarrow> n \<le> round_even y"
proof -
  assume "of_int n \<le> y"
  then have "n \<le> \<lfloor>y\<rfloor>" by (simp add: le_floor_iff)
  moreover have "\<lfloor>y\<rfloor> \<le> round_even y" by (simp add: round_even_def Let_def)
  ultimately show ?thesis by simp
qed

lemma round_even_le: "y \<le> of_int n \<Longrightarrow> round_even y \<le> n"
proof -
  assume a: "y \<le> of_int n"
  have f: "\<lfloor>y\<rfloor> \<le> n" using a by (simp add: floor_le_iff)
  show ?thesis
  proof (cases "\<lfloor>y\<rfloor> = n")
    case True
    then have "y = of_int n" using a by linarith
    then show ?thesis by (simp add: round_even_def)
  next
    case False
    with f have "\<lfloor>y\<rfloor> + 1 \<le> n" by simp
    then show ?thesis using f by (auto simp: round_even_def Let_def)
  qed
qed

lemma round_even_mono: "a \<le> b \<Longrightarrow> round_even a \<le> round_even b"
proof -
  assume ab: "a \<le> b"
  then have fab: "\<lfloor>a\<rfloor> \<le> \<lfloor>b\<rfloor>" by (rule floor_mono)
  show ?thesis
  proof (cases "\<lfloor>a\<rfloor> = \<lfloor>b\<rfloor>")
    case True
    then show ?thesis using ab by (auto simp: round_even_def Let_def)
  next
    case False
    with fab have "\<lfloor>a\<rfloor> + 1 \<le> \<lfloor>b\<rfloor>" by simp
    then have "a \<le> of_int \<lfloor>b\<rfloor>"
      by (metis add.commute floor_less_iff le_less_linear less_le_trans not_le of_int_floor_le order.strict_implies_order zle_add1_eq_le)
    then have "round_even a \<le> \<lfloor>b\<rfloor>" by (rule round_even_le)
    moreover have "\<lfloor>b\<rfloor> \<le> round_even b" by (rule round_even_ge) simp
    ultimately show ?thesis by simp
  qed
qed

lemma log2_bounds:
  assumes "0 < x"
  shows "2 powi \<lfloor>log 2 x\<rfloor> \<le> x" and "x < 2 powi (\<lfloor>log 2 x\<rfloor> + 1)"
proof -
  have p: "(2::real) powr (of_int n) = 2 powi n" for n
    by (rule powr_real_of_int') simp_all
  have "2 powr (of_int \<lfloor>log 2 x\<rfloor>) \<le> x \<and> x < 2 powr (of_int \<lfloor>log 2 x\<rfloor> + 1)"
    using assms floor_log_eq_powr_iff [of x 2 "\<lfloor>log 2 x\<rfloor>"] by simp
  then have "2 powr (of_int \<lfloor>log 2 x\<rfloor>) \<le> x \<and> x < 2 powr (of_int (\<lfloor>log 2 x\<rfloor> + 1))"
    by simp
  then show "2 powi \<lfloor>log 2 x\<rfloor> \<le> x" and "x < 2 powi (\<lfloor>log 2 x\<rfloor> + 1)"
    by (simp_all only: p)
qed

lemma fl_pos_eq:
  assumes "0 < x"
  shows "fl x = of_int (round_even (x / 2 powi (\<lfloor>log 2 x\<rfloor> - 52))) * 2 powi (\<lfloor>log 2 x\<rfloor> - 52)"
  using assms by (simp add: fl_def Let_def)

lemma fl_lower:
  assumes "0 < x"
  shows "2 powi \<lfloor>log 2 x\<rfloor> \<le> fl x"
proof -
  let ?e = "\<lfloor>log 2 x\<rfloor>"
  have u: "0 < (2::real) powi (?e - 52)" by simp
  have "2 ^ 52 * 2 powi (?e - 52) = (2::real) powi ?e"
    by (simp add: power_int_diff)
  then have "2 ^ 52 \<le> x / 2 powi (?e - 52)"
    using log2_bounds(1) [OF assms] u by (simp add: pos_le_divide_eq)
  then have "of_int (2 ^ 52) \<le> x / 2 powi (?e - 52)" by simp
  then have "2 ^ 52 \<le> round_even (x / 2 powi (?e - 52))" by (rule round_even_ge)
  then have "(2::real) ^ 52 \<le> of_int (round_even (x / 2 powi (?e - 52)))"
    by (metis of_int_le_iff of_int_numeral of_int_power)
  then have "2 ^ 52 * 2 powi (?e - 52) \<le> fl x"
    using u by (simp add: fl_pos_eq [OF assms])
  then show ?thesis by (simp add: power_int_diff)
qed

lemma fl_upper:
  assumes "0 < x"
  shows "fl x \<le> 2 powi (\<lfloor>log 2 x\<rfloor> + 1)"
proof -
  let ?e = "\<lfloor>log 2 x\<rfloor>"
  have u: "0 < (2::real) powi (?e - 52)" by simp
  have s: "2 ^ 53 * 2 powi (?e - 52) = (2::real) powi (?e + 1)"
    by (simp add: power_int_diff power_int_add)
  then have "x / 2 powi (?e - 52) \<le> 2 ^ 53"
    using log2_bounds(2) [OF assms] u by (simp add: pos_divide_le_eq)
  then have "x / 2 powi (?e - 52) \<le> of_int (2 ^ 53)" by simp
  then have "round_even (x / 2 powi (?e - 52)) \<le> 2 ^ 53" by (rule round_even_le)
  then have "of_int (round_even (x / 2 powi (?e - 52))) \<le> (2::real) ^ 53"
    by (metis of_int_le_iff of_int_numeral of_int_power)
  then have "fl x \<le> 2 ^ 53 * 2 powi (?e - 52)"
    using u by (simp add: fl_pos_eq [OF assms])
  then show ?thesis by (simp only: s)
qed

lemma fl_mono:
  assumes "0 < x" and "x \<le> y"
  shows "fl x \<le> fl y"
proof -
  have y: "0 < y" using assms by simp
  have e: "\<lfloor>log 2 x\<rfloor> \<le> \<lfloor>log 2 y\<rfloor>"
    using assms y by (intro floor_mono) simp
  show ?thesis
  proof (cases "\<lfloor>log 2 x\<rfloor> = \<lfloor>log 2 y\<rfloor>")
    case True
    let ?u = "(2::real) powi (\<lfloor>log 2 y\<rfloor> - 52)"
    have u: "0 < ?u" by simp
    have "x / ?u \<le> y / ?u" using assms(2) u by (simp add: divide_right_mono)
    then have "round_even (x / ?u) \<le> round_even (y / ?u)" by (rule round_even_mono)
    then have "of_int (round_even (x / ?u)) * ?u \<le> of_int (round_even (y / ?u)) * ?u"
      using u by simp
    then show ?thesis by (simp add: fl_pos_eq [OF assms(1)] fl_pos_eq [OF y] True)
  next
    case False
    with e have "\<lfloor>log 2 x\<rfloor> + 1 \<le> \<lfloor>log 2 y\<rfloor>" by simp
    then have "(2::real) powi (\<lfloor>log 2 x\<rfloor> + 1) \<le> 2 powi \<lfloor>log 2 y\<rfloor>"
      by (intro power_int_increasing) simp_all
    with fl_upper [OF assms(1)] fl_lower [OF y] show ?thesis by linarith
  qed
qed

lemma fl_of_nat:
  assumes "n < 2 ^ 53"
  shows "fl (real n) = real n"
proof (cases "n = 0")
  case True
  then show ?thesis by (simp add: fl_def)
next
  case False
  then have pos: "0 < real n" by simp
  define e where "e = \<lfloor>log 2 (real n)\<rfloor>"
  have lo: "2 powi e \<le> real n" unfolding e_def by (rule log2_bounds(1) [OF pos])
  have "real n < real (2 ^ 53)" using assms by (simp only: of_nat_less_iff)
  then have hi: "real n < 2 powi 53" by simp
  have e53: "e < 53"
  proof (rule ccontr)
    assume "\<not> e < 53"
    then have "53 \<le> e" by simp
    then have "(2::real) powi 53 \<le> 2 powi e" by (intro power_int_increasing) simp_all
    with lo hi show False by linarith
  qed
  define j where "j = nat (52 - e)"
  have j: "e - 52 = - int j" using e53 by (simp add: j_def)
  have p: "(2::real) powi (- int j) = 1 / 2 ^ j" by (simp add: power_int_minus field_simps)
  have "real n / 2 powi (e - 52) = real n * 2 ^ j" by (simp only: j p) simp
  also have "\<dots> = of_int (int n * 2 ^ j)" by simp
  finally have "round_even (real n / 2 powi (e - 52)) = int n * 2 ^ j"
    by (simp only: round_even_of_int)
  then have "fl (real n) = of_int (int n * 2 ^ j) * 2 powi (e - 52)"
    using pos by (simp only: fl_pos_eq [OF pos] e_def [symmetric])
  also have "\<dots> = real n" by (simp only: j p) simp
  finally show ?thesis .
qed

text \<open>The doubles the examples meet.\<close>

lemma fl_value_0: "fl (1 / 5) = 3602879701896397 / 18014398509481984"
  by (simp add: fl_eval [where k = 55] round_even_def)

lemma fl_value_1: "fl (3 / 20) = 5404319552844595 / 36028797018963968"
  by (simp add: fl_eval [where k = 55] round_even_def)

lemma fl_value_2: "fl (2 / 25) = 5764607523034235 / 72057594037927936"
  by (simp add: fl_eval [where k = 56] round_even_def)

lemma fl_value_3: "fl (2 / 5) = 3602879701896397 / 9007199254740992"
  by (simp add: fl_eval [where k = 54] round_even_def)

lemma fl_value_4: "fl (4 / 5) = 3602879701896397 / 4503599627370496"
  by (simp add: fl_eval [where k = 53] round_even_def)

lemma fl_value_5: "fl (3 / 10) = 5404319552844595 / 18014398509481984"
  by (simp add: fl_eval [where k = 54] round_even_def)

lemma fl_value_6: "fl (7 / 10) = 3152519739159347 / 4503599627370496"
  by (simp add: fl_eval [where k = 53] round_even_def)

lemma fl_value_7: "fl (3 / 5) = 5404319552844595 / 9007199254740992"
  by (simp add: fl_eval [where k = 53] round_even_def)

lemma fl_value_8: "fl (1 / 100) = 5764607523034235 / 576460752303423488"
  by (simp add: fl_eval [where k = 59] round_even_def)

lemma fl_value_9: "fl (1 / 10) = 3602879701896397 / 36028797018963968"
  by (simp add: fl_eval [where k = 56] round_even_def)

lemma fl_value_10: "fl (1 / 16) = 1 / 16"
  by (simp add: fl_eval [where k = 56] round_even_def)

lemma fl_value_11: "fl (1 / 100000) = 5902958103587057 / 590295810358705651712"
  by (simp add: fl_eval [where k = 69] round_even_def)

lemma fl_value_12: "fl (590301713316809238769 / 590295810358705651712) = 2251822331683385 / 2251799813685248"
  by (simp add: fl_eval [where k = 52] round_even_def)

lemma fl_value_13: "fl (2251799813685248 / 2251822331683385) = 9007109183649155 / 9007199254740992"
  by (simp add: fl_eval [where k = 53] round_even_def)

lemma fl_value_14: "fl (5404319552844595 / 9007199254740992) = 5404319552844595 / 9007199254740992"
  by (simp add: fl_eval [where k = 53] round_even_def)

lemma fl_value_15: "fl (1 / 4) = 1 / 4"
  by (simp add: fl_eval [where k = 54] round_even_def)

lemma fl_value_16: "fl (3602879701896397 / 2251799813685248) = 3602879701896397 / 2251799813685248"
  by (simp add: fl_eval [where k = 52] round_even_def)

lemma fl_value_17: "fl (5764607523034235 / 144115188075855872) = 5764607523034235 / 144115188075855872"
  by (simp add: fl_eval [where k = 57] round_even_def)

lemma fl_value_18: "fl (5764607523034235 / 36028797018963968) = 5764607523034235 / 36028797018963968"
  by (simp add: fl_eval [where k = 55] round_even_def)

lemma fl_value_19: "fl (3602879701896397 / 9007199254740992) = 3602879701896397 / 9007199254740992"
  by (simp add: fl_eval [where k = 54] round_even_def)

lemma fl_value_20: "fl (5404319552844595 / 2251799813685248) = 5404319552844595 / 2251799813685248"
  by (simp add: fl_eval [where k = 51] round_even_def)

lemma fl_value_21: "fl (3) = 3"
  by (simp add: fl_eval [where k = 51] round_even_def)

lemma fl_value_22: "fl (3 / 4) = 3 / 4"
  by (simp add: fl_eval [where k = 53] round_even_def)

lemma fl_value_23: "fl (1 / 1450) = 3180473116156819 / 4611686018427387904"
  by (simp add: fl_eval [where k = 63] round_even_def)

lemma fl_value_24: "fl (65302194596872192 / 2251822331683385) = 8162692697682047 / 281474976710656"
  by (simp add: fl_eval [where k = 48] round_even_def)

lemma fl_value_25: "fl (28) = 28"
  by (simp add: fl_eval [where k = 48] round_even_def)

lemma fl_value_26: "fl (28 / 29) = 8696606176991303 / 9007199254740992"
  by (simp add: fl_eval [where k = 53] round_even_def)

lemma fl_value_27: "fl (14) = 14"
  by (simp add: fl_eval [where k = 49] round_even_def)

lemma fl_value_28: "fl (7 / 50) = 1261007895663739 / 9007199254740992"
  by (simp add: fl_eval [where k = 55] round_even_def)

lemma fl_value_29: "fl (156725267032493255 / 36028797018963968) = 2448832297382707 / 562949953421312"
  by (simp add: fl_eval [where k = 50] round_even_def)

lemma fl_value_30: "fl (1 / 29) = 2484744621997515 / 72057594037927936"
  by (simp add: fl_eval [where k = 57] round_even_def)

lemma fl_value_31: "fl (104483511354995513 / 9007199254740992) = 1632554864921805 / 140737488355328"
  by (simp add: fl_eval [where k = 49] round_even_def)

lemma fl_value_32: "fl (167173618167992815 / 576460752303423488) = 5224175567749775 / 18014398509481984"
  by (simp add: fl_eval [where k = 54] round_even_def)

lemma fl_value_33: "fl (130604389193744375 / 4503599627370496) = 8162774324609023 / 281474976710656"
  by (simp add: fl_eval [where k = 48] round_even_def)

lemma fl_value_34: "fl (104483511354995513 / 36028797018963968) = 1632554864921805 / 562949953421312"
  by (simp add: fl_eval [where k = 51] round_even_def)

lemma fl_value_35: "fl (61220807434567675 / 140737488355328) = 7652600929320959 / 17592186044416"
  by (simp add: fl_eval [where k = 44] round_even_def)

lemma fl_value_36: "fl (1 / 2) = 1 / 2"
  by (simp add: fl_eval [where k = 53] round_even_def)

lemma fl_value_37: "fl (2361189144392926193905 / 590295810358705651712) = 1125902721592391 / 281474976710656"
  by (simp add: fl_eval [where k = 50] round_even_def)

lemma fl_value_38: "fl (281474976710656 / 1125902721592391) = 9007176736799151 / 36028797018963968"
  by (simp add: fl_eval [where k = 55] round_even_def)

lemma fl_value_39: "fl (3 / 2) = 3 / 2"
  by (simp add: fl_eval [where k = 52] round_even_def)

lemma fl_value_40: "fl (3 / 8) = 3 / 8"
  by (simp add: fl_eval [where k = 54] round_even_def)

lemma fl_value_41: "fl (1) = 1"
  by (simp add: fl_eval [where k = 52] round_even_def)

lemma fl_value_42: "fl (5764607523034235 / 72057594037927936) = 5764607523034235 / 72057594037927936"
  by (simp add: fl_eval [where k = 56] round_even_def)

lemma fl_value_43: "fl (5404319552844595 / 4503599627370496) = 5404319552844595 / 4503599627370496"
  by (simp add: fl_eval [where k = 52] round_even_def)

lemma fl_value_44: "fl (4503599627370496 / 2251822331683385) = 9007109183649155 / 4503599627370496"
  by (simp add: fl_eval [where k = 52] round_even_def)

lemma fl_value_45: "fl (5404319552844595 / 18014398509481984) = 5404319552844595 / 18014398509481984"
  by (simp add: fl_eval [where k = 54] round_even_def)

lemma fl_value_46: "fl (3602879701896397 / 4503599627370496) = 3602879701896397 / 4503599627370496"
  by (simp add: fl_eval [where k = 53] round_even_def)

lemma fl_value_47: "fl (5764607523034235 / 288230376151711744) = 5764607523034235 / 288230376151711744"
  by (simp add: fl_eval [where k = 58] round_even_def)

lemma fl_value_48: "fl (3602879701896397 / 18014398509481984) = 3602879701896397 / 18014398509481984"
  by (simp add: fl_eval [where k = 55] round_even_def)

lemma fl_value_49: "fl (200) = 200"
  by (simp add: fl_eval [where k = 45] round_even_def)

lemma fl_value_50: "fl (10) = 10"
  by (simp add: fl_eval [where k = 49] round_even_def)

lemma fl_value_51: "fl (90) = 90"
  by (simp add: fl_eval [where k = 46] round_even_def)

lemma fl_value_52: "fl (2) = 2"
  by (simp add: fl_eval [where k = 51] round_even_def)

lemma fl_value_53: "fl (100) = 100"
  by (simp add: fl_eval [where k = 46] round_even_def)

lemma fl_value_54: "fl (135107988821114875 / 9007199254740992) = 15"
  by (simp add: fl_eval [where k = 49] round_even_def)

lemmas fl_values = fl_zero
  fl_value_0 fl_value_1 fl_value_2 fl_value_3 fl_value_4 fl_value_5 fl_value_6 fl_value_7
  fl_value_8 fl_value_9 fl_value_10 fl_value_11 fl_value_12 fl_value_13 fl_value_14
  fl_value_15 fl_value_16 fl_value_17 fl_value_18 fl_value_19 fl_value_20 fl_value_21
  fl_value_22 fl_value_23 fl_value_24 fl_value_25 fl_value_26 fl_value_27 fl_value_28
  fl_value_29 fl_value_30 fl_value_31 fl_value_32 fl_value_33 fl_value_34 fl_value_35
  fl_value_36 fl_value_37 fl_value_38 fl_value_39 fl_value_40 fl_value_41 fl_value_42
  fl_value_43 fl_value_44 fl_value_45 fl_value_46 fl_value_47 fl_value_48 fl_value_49
  fl_value_50 fl_value_51 fl_value_52 fl_value_53 fl_value_54

text \<open>
  The product the doors rule compares with the box area, for a 29 by 100 image: below
  29, where the exact product is 29.
\<close>

lemma doors_threshold_29_100:
  "fl (fl (fl 0.01 * 29) * 100) = 8162774324609023 / 281474976710656"
  by (simp add: fl_values)

text \<open>The same for a 58 by 50 image.\<close>

lemma doors_threshold_58_50:
  "fl (fl (fl 0.01 * 58) * 50) = 8162774324609023 / 281474976710656"
proof -
  have a: "fl (167173618167992815 / 288230376151711744) = 5224175567749775 / 9007199254740992"
    by (simp add: fl_eval [where k = 53] round_even_def)
  have b: "fl (130604389193744375 / 4503599627370496) = 8162774324609023 / 281474976710656"
    by (simp add: fl_eval [where k = 48] round_even_def)
  show ?thesis by (simp add: fl_values a b)
qed

subsection \<open>The examples\<close>

lemma np_where_empty_iff:
  "np_where m = [] \<longleftrightarrow> (\<forall>y < nrows m. \<forall>x < ncols m. \<not> cell m y x)"
  by (auto simp: np_where_def filter_empty_conv)

lemma example_mask_sel:
  "nrows (example_mask h w ps) = h"
  "ncols (example_mask h w ps) = w"
  "cell (example_mask h w ps) y x \<longleftrightarrow> (y, x) \<in> set ps"
  by (simp_all add: example_mask_def)

lemma flat_image_sel:
  "nrows (flat_image h w p) = h"
  "ncols (flat_image h w p) = w"
  "cell (flat_image h w p) y x = p"
  by (simp_all add: flat_image_def)

lemma np_where_filter:
  "np_where m = filter (\<lambda>(y, x). cell m y x) (List.product [0..<nrows m] [0..<ncols m])"
  by (simp add: np_where_def product_concat_map filter_concat filter_map comp_def)

lemma distinct_np_where: "distinct (np_where m)"
  by (simp add: np_where_filter distinct_product)

lemma np_where_bounds: "(y, x) \<in> set (np_where m) \<Longrightarrow> y < nrows m \<and> x < ncols m"
  by (auto simp: np_where_filter)

lemma np_where_example:
  assumes "distinct ps" and "\<forall>p \<in> set ps. fst p < h \<and> snd p < w"
  shows "set (np_where (example_mask h w ps)) = set ps"
    and "length (np_where (example_mask h w ps)) = length ps"
proof -
  show s: "set (np_where (example_mask h w ps)) = set ps"
    using assms(2) by (auto simp: np_where_filter example_mask_sel)
  have "length (np_where (example_mask h w ps)) = card (set (np_where (example_mask h w ps)))"
    by (simp add: distinct_card distinct_np_where)
  also have "\<dots> = length ps" using assms(1) by (simp add: s distinct_card)
  finally show "length (np_where (example_mask h w ps)) = length ps" .
qed

lemma np_where_corner_first: "np_where (example_mask 4 4 [(0, 0)]) = [(0, 0)]"
  by (simp add: np_where_def example_mask_sel upt_rec)

lemma np_where_corner_last: "np_where (example_mask 4 4 [(3, 3)]) = [(3, 3)]"
  by (simp add: np_where_def example_mask_sel upt_rec)

lemma stats_corner_blue:
  "compute_stats (example_mask 4 4 [(0, 0)]) (Some (flat_image 4 4 (200, 10, 10))) =
     Inr \<lparr> img_h = 4, img_w = 4, box_height = 1, box_width = 1, box_area = 1, mask_area = 1,
           area_ratio = 1 / 16, aspect = 9007109183649155 / 9007199254740992,
           center_y = 0, center_x = 0, avg_b = 200, avg_g = 10, avg_r = 10 \<rparr>"
  by (simp add: compute_stats_def np_where_corner_first example_mask_sel flat_image_sel
        same_shape_def np_mean_def fl_values)

lemma stats_corner_grey:
  "compute_stats (example_mask 4 4 [(0, 0)]) (Some (flat_image 4 4 (90, 90, 90))) =
     Inr \<lparr> img_h = 4, img_w = 4, box_height = 1, box_width = 1, box_area = 1, mask_area = 1,
           area_ratio = 1 / 16, aspect = 9007109183649155 / 9007199254740992,
           center_y = 0, center_x = 0, avg_b = 90, avg_g = 90, avg_r = 90 \<rparr>"
  by (simp add: compute_stats_def np_where_corner_first example_mask_sel flat_image_sel
        same_shape_def np_mean_def fl_values)

lemma stats_corner_none:
  "compute_stats (example_mask 4 4 [(3, 3)]) None =
     Inr \<lparr> img_h = 4, img_w = 4, box_height = 1, box_width = 1, box_area = 1, mask_area = 1,
           area_ratio = 1 / 16, aspect = 9007109183649155 / 9007199254740992,
           center_y = 3 / 4, center_x = 3 / 4, avg_b = 0, avg_g = 0, avg_r = 0 \<rparr>"
  by (simp add: compute_stats_def np_where_corner_last example_mask_sel
        fl_values)

lemma bottom_row_where:
  "set (np_where bottom_row_mask) = {(28, 0), (28, 28)}"
  "length (np_where bottom_row_mask) = 2"
  "nrows bottom_row_mask = 29" "ncols bottom_row_mask = 100"
  by (simp_all add: bottom_row_mask_def np_where_example example_mask_sel)

lemma stats_bottom_row:
  "compute_stats bottom_row_mask None =
     Inr \<lparr> img_h = 29, img_w = 100, box_height = 1, box_width = 29, box_area = 29,
           mask_area = 2, area_ratio = 3180473116156819 / 4611686018427387904,
           aspect = 8162692697682047 / 281474976710656,
           center_y = 8696606176991303 / 9007199254740992,
           center_x = 1261007895663739 / 9007199254740992,
           avg_b = 0, avg_g = 0, avg_r = 0 \<rparr>"
  by (simp add: compute_stats_def bottom_row_where
        fl_values)

lemma left_column_where:
  "set (np_where left_column_mask) = {(0, 0), (1, 0), (2, 0), (3, 0)}"
  "length (np_where left_column_mask) = 4"
  "nrows left_column_mask = 4" "ncols left_column_mask = 2"
  by (simp_all add: left_column_mask_def np_where_example example_mask_sel)

lemma stats_left_column:
  "compute_stats left_column_mask None =
     Inr \<lparr> img_h = 4, img_w = 2, box_height = 4, box_width = 1, box_area = 4,
           mask_area = 4, area_ratio = 1 / 2,
           aspect = 9007176736799151 / 36028797018963968,
           center_y = 3 / 8, center_x = 0, avg_b = 0, avg_g = 0, avg_r = 0 \<rparr>"
  by (simp add: compute_stats_def left_column_where fl_values)

subsection \<open>Bounding boxes\<close>

text \<open>The set cells lie in the bounding box, and the box lies in the mask.\<close>

lemma np_where_box:
  assumes "np_where m \<noteq> []"
  defines "ys \<equiv> fst ` set (np_where m)" and "xs \<equiv> snd ` set (np_where m)"
  shows "length (np_where m) \<le> (Max ys - Min ys + 1) * (Max xs - Min xs + 1)"
    and "Max xs - Min xs + 1 \<le> ncols m"
    and "Max ys - Min ys + 1 \<le> nrows m"
proof -
  have fy: "finite ys" and fx: "finite xs" by (simp_all add: ys_def xs_def)
  have ney: "ys \<noteq> {}" and nex: "xs \<noteq> {}" using assms(1) by (simp_all add: ys_def xs_def)
  have sub: "set (np_where m) \<subseteq> {Min ys..Max ys} \<times> {Min xs..Max xs}"
  proof
    fix p assume p: "p \<in> set (np_where m)"
    then have "fst p \<in> ys" "snd p \<in> xs" by (simp_all add: ys_def xs_def)
    then have "Min ys \<le> fst p \<and> fst p \<le> Max ys \<and> Min xs \<le> snd p \<and> snd p \<le> Max xs"
      using fy fx by simp
    then show "p \<in> {Min ys..Max ys} \<times> {Min xs..Max xs}" by (cases p) simp
  qed
  have "length (np_where m) = card (set (np_where m))"
    by (simp add: distinct_card distinct_np_where)
  also have "\<dots> \<le> card ({Min ys..Max ys} \<times> {Min xs..Max xs})"
    by (rule card_mono) (simp_all add: sub)
  also have "\<dots> = (Max ys - Min ys + 1) * (Max xs - Min xs + 1)"
  proof -
    have "Min ys \<le> Max ys" using fy ney by simp
    moreover have "Min xs \<le> Max xs" using fx nex by simp
    ultimately show ?thesis by (simp add: card_cartesian_product Suc_diff_le)
  qed
  finally show "length (np_where m) \<le> (Max ys - Min ys + 1) * (Max xs - Min xs + 1)" .
  have "Max xs \<in> xs" using fx nex by (rule Max_in)
  then have "Max xs < ncols m" by (auto simp: xs_def dest: np_where_bounds)
  then show "Max xs - Min xs + 1 \<le> ncols m" by simp
  have "Max ys \<in> ys" using fy ney by (rule Max_in)
  then have "Max ys < nrows m" by (auto simp: ys_def dest: np_where_bounds)
  then show "Max ys - Min ys + 1 \<le> nrows m" by simp
qed

lemma compute_stats_geometry:
  assumes "compute_stats m img = Inr st"
  shows "img_h st = nrows m \<and> img_w st = ncols m \<and>
         box_height st = Max (fst ` set (np_where m)) - Min (fst ` set (np_where m)) + 1 \<and>
         area_ratio st = fl (real (length (np_where m)) / real (nrows m * ncols m))"
  using assms
  by (auto simp: compute_stats_def Let_def split: option.splits if_splits prod.splits)

lemma fl_fifteen_hundredths:
  "fl (3 / 20) = 5404319552844595 / 36028797018963968"
  "fl (5404319552844595 / 36028797018963968) = 5404319552844595 / 36028797018963968"
  by (simp_all add: fl_eval [where k = 55] round_even_def)

text \<open>
  The area ratio of a mask is at most the height of its box over the height of the image,
  and rounding keeps the order: the statistics of a mask (of fewer than \<open>2 ^ 53\<close> rows)
  never satisfy the roof rule and the side walls rule together.
\<close>

lemma roof_excludes_side_walls_on_masks:
  assumes ne: "np_where m \<noteq> []" and st: "compute_stats m img = Inr st"
    and small: "nrows m < 2 ^ 53" and roof: "roof_rule st"
  shows "\<not> side_walls_rule st"
proof
  assume side: "side_walls_rule st"
  let ?n = "length (np_where m)"
  let ?bh = "Max (fst ` set (np_where m)) - Min (fst ` set (np_where m)) + 1"
  let ?bw = "Max (snd ` set (np_where m)) - Min (snd ` set (np_where m)) + 1"
  define c :: real where "c = 5404319552844595 / 36028797018963968"
  have c: "fl (3 / 20) = c" "fl c = c" "0 < c"
    using fl_fifteen_hundredths by (simp_all add: c_def)
  from ne obtain y x where "(y, x) \<in> set (np_where m)" by (cases "np_where m") auto
  then have pos: "0 < nrows m" "0 < ncols m" using np_where_bounds by fastforce+
  from ne have npos: "0 < ?n" by simp
  from np_where_box [OF ne] have n: "?n \<le> ?bh * ?bw" and bw: "?bw \<le> ncols m"
    and bh: "?bh \<le> nrows m" by simp_all
  then have "?n \<le> ?bh * ncols m" by (meson le_trans mult_le_mono2)
  then have le: "real ?n \<le> real ?bh * real (ncols m)"
    by (metis of_nat_le_iff of_nat_mult)
  have g: "img_h st = nrows m" "box_height st = ?bh"
    "area_ratio st = fl (real ?n / real (nrows m * ncols m))"
    using compute_stats_geometry [OF st] by simp_all
  have r: "real ?bh < c * real (nrows m)"
  proof (rule ccontr)
    assume "\<not> real ?bh < c * real (nrows m)"
    then have a: "c * real (nrows m) \<le> real ?bh" by simp
    have "0 < c * real (nrows m)" using c(3) pos by simp
    then have "fl (c * real (nrows m)) \<le> fl (real ?bh)" using a by (rule fl_mono)
    moreover have "fl (real ?bh) = real ?bh"
      using bh small by (intro fl_of_nat) simp
    moreover have "real ?bh < fl (c * real (nrows m))"
      using roof g by (simp add: roof_rule_def c(1))
    ultimately show False by simp
  qed
  have s: "c * (real (nrows m) * real (ncols m)) < real ?n"
  proof (rule ccontr)
    assume "\<not> c * (real (nrows m) * real (ncols m)) < real ?n"
    then have "real ?n / real (nrows m * ncols m) \<le> c"
      using pos by (simp add: field_simps)
    moreover have "0 < real ?n / real (nrows m * ncols m)" using npos pos by simp
    ultimately have "fl (real ?n / real (nrows m * ncols m)) \<le> fl c" by (intro fl_mono)
    moreover have "c < fl (real ?n / real (nrows m * ncols m))"
      using side g by (simp add: side_walls_rule_def c(1))
    ultimately show False using c(2) by simp
  qed
  from r pos have "real ?bh * real (ncols m) < c * real (nrows m) * real (ncols m)"
    by (simp add: mult_strict_right_mono)
  with le s show False by (simp add: algebra_simps)
qed

subsection \<open>Style resolution\<close>

lemma dict_get_lookup:
  "dict_get (dict_get lib region []) style [] = spec_lookup lib region style"
  by (simp add: dict_get_def spec_lookup_def split: option.splits)

lemma scan_regions_find:
  "set ks \<subseteq> fst ` set lib \<Longrightarrow>
   scan_regions lib ks style [] =
     Inr (case find (\<lambda>r. spec_lookup lib r style \<noteq> []) ks of
            Some r \<Rightarrow> spec_lookup lib r style | None \<Rightarrow> [])"
proof (induction ks)
  case Nil
  then show ?case by simp
next
  case (Cons k ks)
  then have "k \<in> fst ` set lib" by simp
  then obtain styles where s: "map_of lib k = Some styles"
    by (cases "map_of lib k") (auto simp: map_of_eq_None_iff)
  from Cons have ih: "scan_regions lib ks style [] =
     Inr (case find (\<lambda>r. spec_lookup lib r style \<noteq> []) ks of
            Some r \<Rightarrow> spec_lookup lib r style | None \<Rightarrow> [])" by simp
  show ?case
    using s ih by (simp add: dict_item_def spec_lookup_def split: option.splits list.splits)
qed

lemma style_list_for_chain:
  "style_list_for region style lib = Inr (spec_fallback_chain lib region style)"
  using scan_regions_find [of "map fst lib" lib style]
  by (simp add: style_list_for_def spec_fallback_chain_def dict_get_lookup Let_def)






lemma example_lookup_main:
  "spec_lookup example_catalog ''main_walls'' ''modern'' = [example_option]"
  by (simp add: spec_lookup_def example_catalog_def)

lemma example_lookup_other:
  "region \<noteq> ''main_walls'' \<or> style \<noteq> ''modern'' \<Longrightarrow> spec_lookup example_catalog region style = []"
  by (auto simp: spec_lookup_def example_catalog_def)

lemma example_fields:
  "rec_fields example_option =
     Inr (JStr ''#AABBCC'', JStr ''t'', JStr ''m'', JStr ''f'', JNum 4, JArr [JStr ''k''])"
  by (simp add: rec_fields_def dict_item_def example_option_def)

subsection \<open>Styling\<close>

lemma set_masked_cell:
  "set_masked img0 m c = Inr img1 \<Longrightarrow>
     same_shape img1 img0 \<and>
     (\<exists>p. to_pixel c = Inr p \<and> (\<forall>y x. cell img1 y x = (if covers m y x then p else cell img0 y x)))"
  by (auto simp: set_masked_def same_shape_def split: if_splits sum.splits)

lemma style_loop_inv:
  "style_loop orig style lib idx masks img0 out0 rnd = Inr (img, out, rnd') \<Longrightarrow>
     same_shape img img0 \<and>
     (\<exists>new. out = out0 @ new \<and> length new = length masks \<and>
        (\<forall>y x.
           ((\<forall>i < length masks. \<not> covers (masks ! i) y x) \<longrightarrow> cell img y x = cell img0 y x) \<and>
           (\<forall>i < length masks.
              covers (masks ! i) y x \<and> (\<forall>j. i < j \<and> j < length masks \<longrightarrow> \<not> covers (masks ! j) y x)
              \<longrightarrow> resolved_pixel (new ! i) = Inr (cell img y x))))"
proof (induction masks arbitrary: idx img0 out0 rnd)
  case Nil
  then show ?case by (simp add: same_shape_def)
next
  case (Cons m masks)
  from Cons.prems obtain region_type flds rnd1 color_bgr img1 where
    c: "classify_region m (Some orig) = Inr region_type" and
    r: "recommend_style_for_region region_type style lib rnd = Inr (flds, rnd1)" and
    h: "hex_to_bgr (fst flds) = Inr color_bgr" and
    s: "set_masked img0 m color_bgr = Inr img1" and
    l: "style_loop orig style lib (Suc idx) masks img1 (out0 @ [(idx, region_type, flds)]) rnd1
          = Inr (img, out, rnd')"
    by (auto split: sum.splits prod.splits)
  from set_masked_cell [OF s] obtain p where
    sh1: "same_shape img1 img0" and p: "to_pixel color_bgr = Inr p" and
    c1: "\<And>y x. cell img1 y x = (if covers m y x then p else cell img0 y x)"
    by blast
  from Cons.IH [OF l] obtain new where
    sh: "same_shape img img1" and o: "out = (out0 @ [(idx, region_type, flds)]) @ new" and
    len: "length new = length masks" and
    un: "\<And>y x. (\<forall>i < length masks. \<not> covers (masks ! i) y x) \<Longrightarrow> cell img y x = cell img1 y x" and
    la: "\<And>y x i. i < length masks \<Longrightarrow> covers (masks ! i) y x \<Longrightarrow>
           (\<forall>j. i < j \<and> j < length masks \<longrightarrow> \<not> covers (masks ! j) y x) \<Longrightarrow>
           resolved_pixel (new ! i) = Inr (cell img y x)"
    by blast
  let ?e = "(idx, region_type, flds)"
  have rp: "resolved_pixel ?e = Inr p" using h p by (simp add: resolved_pixel_def)
  have "same_shape img img0" using sh sh1 by (simp add: same_shape_def)
  moreover have "out = out0 @ (?e # new)" using o by simp
  moreover have "length (?e # new) = length (m # masks)" using len by simp
  moreover have "(\<forall>i < length (m # masks). \<not> covers ((m # masks) ! i) y x) \<longrightarrow>
      cell img y x = cell img0 y x" for y x
  proof
    assume a: "\<forall>i < length (m # masks). \<not> covers ((m # masks) ! i) y x"
    then have "\<not> covers m y x" by auto
    moreover from a have "\<forall>i < length masks. \<not> covers (masks ! i) y x" by auto
    ultimately show "cell img y x = cell img0 y x" using un c1 by simp
  qed
  moreover have "\<forall>i < length (m # masks).
      covers ((m # masks) ! i) y x \<and>
      (\<forall>j. i < j \<and> j < length (m # masks) \<longrightarrow> \<not> covers ((m # masks) ! j) y x)
      \<longrightarrow> resolved_pixel ((?e # new) ! i) = Inr (cell img y x)" for y x
  proof (intro allI impI)
    fix i
    assume i: "i < length (m # masks)"
    assume a: "covers ((m # masks) ! i) y x \<and>
      (\<forall>j. i < j \<and> j < length (m # masks) \<longrightarrow> \<not> covers ((m # masks) ! j) y x)"
    show "resolved_pixel ((?e # new) ! i) = Inr (cell img y x)"
    proof (cases i)
      case 0
      with a have cm: "covers m y x" by simp
      have "\<forall>k < length masks. \<not> covers (masks ! k) y x"
      proof (intro allI impI)
        fix k assume "k < length masks"
        with a 0 have "\<not> covers ((m # masks) ! Suc k) y x" by auto
        then show "\<not> covers (masks ! k) y x" by simp
      qed
      then have "cell img y x = cell img1 y x" by (rule un)
      with cm c1 rp 0 show ?thesis by simp
    next
      case (Suc k)
      with i have k: "k < length masks" by simp
      from a Suc have ck: "covers (masks ! k) y x" by simp
      have "\<forall>j. k < j \<and> j < length masks \<longrightarrow> \<not> covers (masks ! j) y x"
      proof (intro allI impI)
        fix j assume "k < j \<and> j < length masks"
        with a Suc have "\<not> covers ((m # masks) ! Suc j) y x" by auto
        then show "\<not> covers (masks ! j) y x" by simp
      qed
      from la [OF k ck this] Suc show ?thesis by simp
    qed
  qed
  ultimately show ?case by blast
qed

subsection \<open>Blending\<close>




subsection \<open>The two copies\<close>

lemma classify_rules_s_eq:
  "classify_rules_s h w bh ba ar asp cy cx ab ag ar' =
   classify_rules \<lparr> img_h = h, img_w = w, box_height = bh, box_width = bw, box_area = ba,
     mask_area = ma, area_ratio = ar, aspect = asp, center_y = cy, center_x = cx,
     avg_b = ab, avg_g = ag, avg_r = ar' \<rparr>"
  unfolding classify_rules_def classify_rules_s_def rule_defs
  by (simp only: region_stats.select_convs)

lemma classify_region_s_eq: "classify_region_s m img = classify_region m img"
proof (cases "np_where m = []")
  case True
  then show ?thesis by (simp add: classify_region_s_def classify_region_def)
next
  case ne: False
  show ?thesis
  proof (cases img)
    case None
    with ne show ?thesis
      unfolding classify_region_s_def classify_region_def compute_stats_def Let_def
      by (simp add: classify_rules_s_eq [where ma = "length (np_where m)"])
  next
    case (Some im)
    show ?thesis
    proof (cases "same_shape m im")
      case False
      with ne Some show ?thesis
        unfolding classify_region_s_def classify_region_def compute_stats_def Let_def
        by simp
    next
      case True
      obtain b g r where c: "np_mean im (np_where m) = (b, g, r)"
        by (cases "np_mean im (np_where m)") auto
      with ne Some True show ?thesis
        unfolding classify_region_s_def classify_region_def compute_stats_def Let_def
        by (simp add: classify_rules_s_eq [where ma = "length (np_where m)"])
    qed
  qed
qed

lemma scan_regions_s_eq: "scan_regions_s lib ks style sl = scan_regions lib ks style sl"
  by (induction ks) (auto split: sum.splits option.splits list.splits)

lemma hex_to_bgr_s_eq: "hex_to_bgr_s hex_color = hex_to_bgr hex_color"
  unfolding hex_to_bgr_s_def hex_to_bgr_def Let_def by (rule refl)

lemma rec_fields_inline:
  "(case rec_fields r of Inl e \<Rightarrow> Inl e | Inr flds \<Rightarrow> Inr (flds, rnd')) =
   (case dict_item r ''color'' of Inl e \<Rightarrow> Inl e | Inr color \<Rightarrow>
   (case dict_item r ''texture'' of Inl e \<Rightarrow> Inl e | Inr texture \<Rightarrow>
   (case dict_item r ''material'' of Inl e \<Rightarrow> Inl e | Inr material \<Rightarrow>
   (case dict_item r ''finish'' of Inl e \<Rightarrow> Inl e | Inr finish \<Rightarrow>
   (case dict_item r ''rating'' of Inl e \<Rightarrow> Inl e | Inr rating \<Rightarrow>
   (case dict_item r ''keywords'' of Inl e \<Rightarrow> Inl e | Inr keywords \<Rightarrow>
      Inr ((color, texture, material, finish, rating, keywords), rnd')))))))"
  unfolding rec_fields_def
  by (cases "dict_item r ''color''"; cases "dict_item r ''texture''";
      cases "dict_item r ''material''"; cases "dict_item r ''finish''";
      cases "dict_item r ''rating''"; cases "dict_item r ''keywords''")
     (simp_all only: sum.case)

lemma recommend_s_eq:
  "recommend_style_for_region_s region_type style lib rnd =
   recommend_style_for_region region_type style lib rnd"
proof -
  have "recommend_style_for_region region_type style lib rnd =
     (case style_list_for region_type style lib of
        Inl e \<Rightarrow> Inl e
      | Inr style_list \<Rightarrow>
          (case random_choice style_list rnd of
             Inl e \<Rightarrow> Inl e
           | Inr (r, rnd') \<Rightarrow>
               (case dict_item r ''color'' of Inl e \<Rightarrow> Inl e | Inr color \<Rightarrow>
               (case dict_item r ''texture'' of Inl e \<Rightarrow> Inl e | Inr texture \<Rightarrow>
               (case dict_item r ''material'' of Inl e \<Rightarrow> Inl e | Inr material \<Rightarrow>
               (case dict_item r ''finish'' of Inl e \<Rightarrow> Inl e | Inr finish \<Rightarrow>
               (case dict_item r ''rating'' of Inl e \<Rightarrow> Inl e | Inr rating \<Rightarrow>
               (case dict_item r ''keywords'' of Inl e \<Rightarrow> Inl e | Inr keywords \<Rightarrow>
                  Inr ((color, texture, material, finish, rating, keywords), rnd')))))))))"
    unfolding recommend_style_for_region_def rec_fields_inline by (rule refl)
  then show ?thesis
    unfolding recommend_style_for_region_s_def style_list_for_def scan_regions_s_eq Let_def
    by (rule sym)
qed

lemma style_loop_s_eq:
  "style_loop_s orig style lib idx masks img out rnd = style_loop orig style lib idx masks img out rnd"
proof (induction masks arbitrary: idx img out rnd)
  case Nil
  show ?case by (simp only: style_loop_s.simps style_loop.simps)
next
  case (Cons m masks)
  show ?case
    by (simp only: style_loop_s.simps style_loop.simps classify_region_s_eq recommend_s_eq
          hex_to_bgr_s_eq Cons.IH)
qed

section \<open>The claims\<close>

text \<open>
  C1. Style resolution follows the fallback chain of the specification: the candidate
  list is the entry of the region, else the entry of \<^verbatim>\<open>main_walls\<close>, else the first
  non-empty entry found over the regions in catalog order, each later step only when the
  one before gave the empty list; the record returned is drawn from that list. With
  \<^verbatim>\<open>main_walls.modern = [X]\<close> and no entry for \<^verbatim>\<open>roof.modern\<close>, resolving (roof, modern)
  returns the fields of \<open>X\<close>.
\<close>

theorem resolution_follows_fallback_chain:
  "style_list_for region style lib = Inr (spec_fallback_chain lib region style) \<and>
   recommend_style_for_region region style lib rnd =
     (case random_choice (spec_fallback_chain lib region style) rnd of
        Inl e \<Rightarrow> Inl e
      | Inr (r, rnd') \<Rightarrow> (case rec_fields r of Inl e \<Rightarrow> Inl e | Inr flds \<Rightarrow> Inr (flds, rnd'))) \<and>
   (spec_lookup lib ''main_walls'' ''modern'' = [X] \<and> spec_lookup lib ''roof'' ''modern'' = [] \<longrightarrow>
      recommend_style_for_region ''roof'' ''modern'' lib rnd =
        (case rec_fields X of Inl e \<Rightarrow> Inl e | Inr flds \<Rightarrow> Inr (flds, \<lambda>i. rnd (Suc i))))"
  by (simp add: recommend_style_for_region_def style_list_for_chain spec_fallback_chain_def
        random_choice_def)

theorem resolution_follows_fallback_chain_witness:
  "spec_lookup example_catalog ''main_walls'' ''modern'' = [example_option] \<and>
   spec_lookup example_catalog ''roof'' ''modern'' = [] \<and>
   recommend_style_for_region ''roof'' ''modern'' example_catalog (\<lambda>i. 0) =
     Inr ((JStr ''#AABBCC'', JStr ''t'', JStr ''m'', JStr ''f'', JNum 4, JArr [JStr ''k'']),
          \<lambda>i. 0)"
proof -
  have a: "spec_lookup example_catalog ''main_walls'' ''modern'' = [example_option]"
    by (rule example_lookup_main)
  have b: "spec_lookup example_catalog ''roof'' ''modern'' = []"
    by (simp add: example_lookup_other)
  from resolution_follows_fallback_chain
         [where region = "''roof''" and style = "''modern''" and lib = example_catalog
            and X = example_option and rnd = "\<lambda>i. 0", THEN conjunct2, THEN conjunct2]
       a b
  have "recommend_style_for_region ''roof'' ''modern'' example_catalog (\<lambda>i. 0) =
          (case rec_fields example_option of
             Inl e \<Rightarrow> Inl e | Inr flds \<Rightarrow> Inr (flds, \<lambda>i. 0))"
    by blast
  with a b show ?thesis by (simp add: example_fields)
qed




text \<open>
  C3. A non-empty mask whose statistics fail the rules for roof, balcony, pillars,
  side walls, upper walls, main walls and doors, and satisfy the shape and position test
  of the windows rule, is classified \<^verbatim>\<open>windows\<close>, whatever its mean colour: the colour
  test of the windows rule does not appear among the hypotheses.
\<close>

theorem windows_rule_ignores_colour:
  assumes "np_where m \<noteq> []" and "compute_stats m img = Inr st"
    and "\<not> roof_rule st" and "\<not> balcony_rule st" and "\<not> pillars_rule st"
    and "\<not> side_walls_rule st" and "\<not> upper_walls_rule st" and "\<not> main_walls_rule st"
    and "\<not> (doors_shape st \<and> doors_dark st)"
    and "windows_shape st"
  shows "classify_region m img = Inr ''windows''"
  using assms by (simp add: classify_region_def classify_rules_def)

theorem windows_rule_ignores_colour_witness:
  "classify_region (example_mask 4 4 [(0, 0)]) (Some (flat_image 4 4 (200, 10, 10))) =
     Inr ''windows'' \<and>
   classify_region (example_mask 4 4 [(0, 0)]) (Some (flat_image 4 4 (90, 90, 90))) =
     Inr ''windows''"
proof -
  have n: "np_where (example_mask 4 4 [(0, 0)]) \<noteq> []" by (simp add: np_where_corner_first)
  have "classify_region (example_mask 4 4 [(0, 0)]) (Some (flat_image 4 4 (200, 10, 10))) =
     Inr ''windows''"
    by (rule windows_rule_ignores_colour [OF n stats_corner_blue])
      (simp_all add: rule_defs fl_values)
  moreover
  have "classify_region (example_mask 4 4 [(0, 0)]) (Some (flat_image 4 4 (90, 90, 90))) =
     Inr ''windows''"
    by (rule windows_rule_ignores_colour [OF n stats_corner_grey])
      (simp_all add: rule_defs fl_values)
  ultimately show ?thesis by simp
qed

text \<open>
  C4. The label of a non-empty mask is that of the first rule its statistics match, in
  the order roof, balcony, pillars, side walls, upper walls, main walls, doors, windows,
  fallbacks; statistics that satisfy the roof rule and the side walls rule are labelled
  \<^verbatim>\<open>roof\<close>. (By \<open>roof_excludes_side_walls_on_masks\<close> such statistics do not come from a
  mask; they are statistics written down directly.)
\<close>

theorem first_matching_rule_wins:
  "Some (classify_rules st) = first_match spec_rule_order st \<and>
   (np_where m \<noteq> [] \<and> compute_stats m img = Inr st \<longrightarrow>
      classify_region m img = Inr (classify_rules st)) \<and>
   (roof_rule st \<and> side_walls_rule st \<longrightarrow> classify_rules st = ''roof'')"
  by (simp add: classify_rules_def spec_rule_order_def classify_region_def)

text \<open>
  Two instances: the statistics written down for roof and side walls; and a mask, the left
  column of a 4 by 2 image, whose statistics satisfy the pillars rule and the side walls
  rule, and which is labelled by the earlier of the two.
\<close>

theorem first_matching_rule_wins_witness:
  "roof_rule roof_side_stats \<and> side_walls_rule roof_side_stats \<and>
   classify_rules roof_side_stats = ''roof'' \<and>
   np_where left_column_mask \<noteq> [] \<and>
   (\<exists>st. compute_stats left_column_mask None = Inr st \<and>
         pillars_rule st \<and> side_walls_rule st \<and>
         first_match spec_rule_order st = Some ''pillars'') \<and>
   classify_region left_column_mask None = Inr ''pillars''"
proof -
  let ?st = "\<lparr> img_h = 4, img_w = 2, box_height = 4, box_width = 1, box_area = 4,
           mask_area = 4, area_ratio = 1 / 2,
           aspect = 9007176736799151 / 36028797018963968,
           center_y = 3 / 8, center_x = 0, avg_b = 0, avg_g = 0, avg_r = 0 \<rparr>"
  have n: "np_where left_column_mask \<noteq> []"
    using left_column_where(2) by auto
  have p: "pillars_rule ?st" by (simp add: pillars_rule_def fl_values)
  have s: "side_walls_rule ?st" by (simp add: side_walls_rule_def fl_values)
  have f: "first_match spec_rule_order ?st = Some ''pillars''"
    by (simp add: spec_rule_order_def rule_defs fl_values)
  note t = first_matching_rule_wins [where st = ?st and m = left_column_mask and img = None]
  from t f have c: "classify_rules ?st = ''pillars''" by simp
  from t n stats_left_column have "classify_region left_column_mask None =
      Inr (classify_rules ?st)" by blast
  with c have d: "classify_region left_column_mask None = Inr ''pillars''" by simp
  have r: "roof_rule roof_side_stats \<and> side_walls_rule roof_side_stats"
    by (simp add: roof_side_stats_def roof_rule_def side_walls_rule_def fl_values)
  with first_matching_rule_wins [where st = roof_side_stats]
  have "classify_rules roof_side_stats = ''roof''" by blast
  with r n p s f d stats_left_column show ?thesis by blast
qed

text \<open>
  C5. A mask with no set cell is classified \<^verbatim>\<open>main_walls\<close> at once, whatever the image
  argument: nothing else is computed, so not even an image of another shape raises.
\<close>

theorem empty_mask_is_main_walls:
  "\<forall>y < nrows m. \<forall>x < ncols m. \<not> cell m y x \<Longrightarrow> classify_region m img = Inr ''main_walls''"
  using np_where_empty_iff [of m] by (simp add: classify_region_def)

theorem empty_mask_is_main_walls_witness:
  "classify_region (example_mask 2 3 []) (Some (flat_image 5 5 (0, 0, 0))) = Inr ''main_walls''"
  using empty_mask_is_main_walls [of "example_mask 2 3 []" "Some (flat_image 5 5 (0, 0, 0))"]
  by (simp add: example_mask_def)

text \<open>
  C6. When styling returns, the output image has the shape of the original, one line was
  printed per mask, every cell covered by no mask keeps the pixel of the original, and
  every cell covered by some mask holds the colour resolved for the last mask, in list
  order, that covers it, converted to (B, G, R).
\<close>

theorem styling_last_write_wins:
  assumes "apply_style_recommendations original_img masks style style_library rnd =
             Inr (output_img, out, rnd')"
  shows "same_shape output_img original_img \<and> length out = length masks \<and>
     (\<forall>y x.
        ((\<forall>i < length masks. \<not> covers (masks ! i) y x) \<longrightarrow>
           cell output_img y x = cell original_img y x) \<and>
        (\<forall>i < length masks.
           covers (masks ! i) y x \<and>
           (\<forall>j. i < j \<and> j < length masks \<longrightarrow> \<not> covers (masks ! j) y x) \<longrightarrow>
           resolved_pixel (out ! i) = Inr (cell output_img y x)))"
  using style_loop_inv [OF assms [unfolded apply_style_recommendations_def]] by auto

lemma top_masks_sel:
  "nrows top_row_mask = 2" "ncols top_row_mask = 2"
  "nrows top_right_mask = 2" "ncols top_right_mask = 2"
  by (simp_all add: top_row_mask_def top_right_mask_def example_mask_sel)

lemma np_where_top_row: "np_where top_row_mask = [(0, 0), (0, 1)]"
  by (simp add: np_where_def top_row_mask_def example_mask_sel upt_rec)

lemma np_where_top_right: "np_where top_right_mask = [(0, 1)]"
  by (simp add: np_where_def top_right_mask_def example_mask_sel upt_rec)

lemma classify_top_row:
  "classify_region top_row_mask (Some (flat_image 2 2 (1, 2, 3))) = Inr ''side_walls''"
  by (simp add: classify_region_def compute_stats_def np_where_top_row top_masks_sel
        flat_image_sel same_shape_def np_mean_def classify_rules_def rule_defs fl_values)

lemma classify_top_right:
  "classify_region top_right_mask (Some (flat_image 2 2 (1, 2, 3))) = Inr ''upper_lower_walls''"
  by (simp add: classify_region_def compute_stats_def np_where_top_right top_masks_sel
        flat_image_sel same_shape_def np_mean_def classify_rules_def rule_defs fl_values)

lemma two_option_chain:
  "spec_fallback_chain two_option_catalog region ''modern'' = [example_option, dark_option]"
  by (simp add: spec_fallback_chain_def spec_lookup_def two_option_catalog_def)

lemma dark_fields:
  "rec_fields dark_option =
     Inr (JStr ''#102030'', JStr ''u'', JStr ''n'', JStr ''g'', JNum 3, JArr [])"
  by (simp add: rec_fields_def dict_item_def dark_option_def)

lemma recommend_first_draw:
  "recommend_style_for_region region ''modern'' two_option_catalog (\<lambda>i. i) =
     Inr ((JStr ''#AABBCC'', JStr ''t'', JStr ''m'', JStr ''f'', JNum 4, JArr [JStr ''k'']),
          \<lambda>i. Suc i)"
  by (simp add: recommend_style_for_region_def style_list_for_chain two_option_chain
        random_choice_def example_fields)

lemma recommend_second_draw:
  "recommend_style_for_region region ''modern'' two_option_catalog (\<lambda>i. Suc i) =
     Inr ((JStr ''#102030'', JStr ''u'', JStr ''n'', JStr ''g'', JNum 3, JArr []),
          \<lambda>i. Suc (Suc i))"
  by (simp add: recommend_style_for_region_def style_list_for_chain two_option_chain
        random_choice_def dark_fields mod_Suc)

lemma hex_AABBCC: "hex_to_bgr (JStr ''#AABBCC'') = Inr (204, 187, 170)"
  by (simp add: hex_to_bgr_def lstrip_def slice_def hex_digit_def)

lemma hex_102030: "hex_to_bgr (JStr ''#102030'') = Inr (48, 32, 16)"
  by (simp add: hex_to_bgr_def lstrip_def slice_def hex_digit_def)

lemma example_styling:
  "\<exists>output_img.
     apply_style_recommendations (flat_image 2 2 (1, 2, 3)) [top_row_mask, top_right_mask]
       ''modern'' two_option_catalog (\<lambda>i. i) =
     Inr (output_img,
          [(0, ''side_walls'',
             (JStr ''#AABBCC'', JStr ''t'', JStr ''m'', JStr ''f'', JNum 4, JArr [JStr ''k''])),
           (1, ''upper_lower_walls'',
             (JStr ''#102030'', JStr ''u'', JStr ''n'', JStr ''g'', JNum 3, JArr []))],
          \<lambda>i. Suc (Suc i))"
  by (simp add: apply_style_recommendations_def classify_top_row classify_top_right
        recommend_first_draw recommend_second_draw hex_AABBCC hex_102030 set_masked_def
        same_shape_def top_masks_sel flat_image_sel to_pixel_def to_uint8_def)

theorem styling_last_write_wins_witness:
  "\<exists>output_img out rnd'.
     apply_style_recommendations (flat_image 2 2 (1, 2, 3)) [top_row_mask, top_right_mask]
       ''modern'' two_option_catalog (\<lambda>i. i) = Inr (output_img, out, rnd') \<and>
     covers top_row_mask 0 1 \<and> covers top_right_mask 0 1 \<and>
     cell output_img 0 0 = (204, 187, 170) \<and>
     cell output_img 0 1 = (48, 32, 16) \<and>
     cell output_img 1 0 = (1, 2, 3)"
proof -
  let ?masks = "[top_row_mask, top_right_mask]"
  let ?out = "[(0 :: nat, ''side_walls'',
             (JStr ''#AABBCC'', JStr ''t'', JStr ''m'', JStr ''f'', JNum 4, JArr [JStr ''k''])),
           (1, ''upper_lower_walls'',
             (JStr ''#102030'', JStr ''u'', JStr ''n'', JStr ''g'', JNum 3, JArr []))]"
  from example_styling obtain output_img where
    e: "apply_style_recommendations (flat_image 2 2 (1, 2, 3)) ?masks
          ''modern'' two_option_catalog (\<lambda>i. i) = Inr (output_img, ?out, \<lambda>i. Suc (Suc i))"
    by blast
  note c = styling_last_write_wins [OF e]
  have c00: "covers top_row_mask 0 0" and c01: "covers top_row_mask 0 1"
    and c10: "\<not> covers top_row_mask 1 0"
    by (simp_all add: covers_def top_row_mask_def example_mask_sel)
  have d00: "\<not> covers top_right_mask 0 0" and d01: "covers top_right_mask 0 1"
    and d10: "\<not> covers top_right_mask 1 0"
    by (simp_all add: covers_def top_right_mask_def example_mask_sel)
  from c have u: "(\<forall>i < length ?masks. \<not> covers (?masks ! i) 1 0) \<longrightarrow>
      cell output_img 1 0 = cell (flat_image 2 2 (1, 2, 3)) 1 0"
    by blast
  have "\<forall>i < length ?masks. \<not> covers (?masks ! i) 1 0"
    using c10 d10 by (simp add: less_Suc_eq nth_Cons')
  with u have p10: "cell output_img 1 0 = (1, 2, 3)" by (simp add: flat_image_sel)
  from c have l: "\<And>i y x. i < length ?masks \<Longrightarrow> covers (?masks ! i) y x \<Longrightarrow>
      (\<forall>j. i < j \<and> j < length ?masks \<longrightarrow> \<not> covers (?masks ! j) y x) \<Longrightarrow>
      resolved_pixel (?out ! i) = Inr (cell output_img y x)"
    by blast
  have "resolved_pixel (?out ! 1) = Inr (cell output_img 0 1)"
  proof (rule l)
    show "1 < length ?masks" by simp
    show "covers (?masks ! 1) 0 1" using d01 by simp
    show "\<forall>j. 1 < j \<and> j < length ?masks \<longrightarrow> \<not> covers (?masks ! j) 0 1" by auto
  qed
  then have p01: "cell output_img 0 1 = (48, 32, 16)"
    by (simp add: resolved_pixel_def hex_102030 to_pixel_def to_uint8_def)
  have "resolved_pixel (?out ! 0) = Inr (cell output_img 0 0)"
  proof (rule l)
    show "0 < length ?masks" by simp
    show "covers (?masks ! 0) 0 0" using c00 by simp
    show "\<forall>j. 0 < j \<and> j < length ?masks \<longrightarrow> \<not> covers (?masks ! j) 0 0"
      using d00 by (auto simp: less_Suc_eq nth_Cons')
  qed
  then have p00: "cell output_img 0 0 = (204, 187, 170)"
    by (simp add: resolved_pixel_def hex_AABBCC to_pixel_def to_uint8_def)
  from e c01 d01 p00 p01 p10 show ?thesis by blast
qed






text \<open>
  C9. Without an image the mean colour is (0, 0, 0), so the darkness test of the doors
  rule holds: a non-empty mask that fails the six rules before it and satisfies the shape
  and position test of the doors rule is classified \<^verbatim>\<open>doors\<close>.
\<close>

theorem doors_without_image:
  assumes "np_where m \<noteq> []" and "compute_stats m None = Inr st"
    and "\<not> roof_rule st" and "\<not> balcony_rule st" and "\<not> pillars_rule st"
    and "\<not> side_walls_rule st" and "\<not> upper_walls_rule st" and "\<not> main_walls_rule st"
    and "doors_shape st"
  shows "avg_b st = 0 \<and> avg_g st = 0 \<and> avg_r st = 0 \<and> doors_dark st \<and>
         classify_region m None = Inr ''doors''"
proof -
  from assms(2) have z: "avg_b st = 0 \<and> avg_g st = 0 \<and> avg_r st = 0"
    by (auto simp: compute_stats_def Let_def)
  then have "doors_dark st" by (simp add: doors_dark_def)
  with z assms show ?thesis by (simp add: classify_region_def classify_rules_def)
qed

text \<open>
  An instance: the 29 by 100 mask whose box area equals the exact value of
  \<^verbatim>\<open>0.01 * h * w\<close>. The product computed in doubles is smaller, so the shape test holds
  and the mask is a door.
\<close>

theorem doors_without_image_witness:
  "np_where bottom_row_mask \<noteq> [] \<and>
   (\<exists>st. compute_stats bottom_row_mask None = Inr st \<and> box_area st = 29 \<and>
         fl (fl (fl 0.01 * real (img_h st)) * real (img_w st)) < 29 \<and> doors_shape st) \<and>
   classify_region bottom_row_mask None = Inr ''doors''"
proof -
  let ?st = "\<lparr> img_h = 29, img_w = 100, box_height = 1, box_width = 29, box_area = 29,
           mask_area = 2, area_ratio = 3180473116156819 / 4611686018427387904,
           aspect = 8162692697682047 / 281474976710656,
           center_y = 8696606176991303 / 9007199254740992,
           center_x = 1261007895663739 / 9007199254740992,
           avg_b = 0, avg_g = 0, avg_r = 0 \<rparr>"
  have n: "np_where bottom_row_mask \<noteq> []"
    using bottom_row_where(2) by auto
  have d: "doors_shape ?st" by (simp add: doors_shape_def fl_values)
  have t: "fl (fl (fl 0.01 * real (img_h ?st)) * real (img_w ?st)) < 29"
    by (simp add: fl_values)
  have "classify_region bottom_row_mask None = Inr ''doors''"
    using doors_without_image [OF n stats_bottom_row] d by (simp add: rule_defs fl_values)
  with n d t stats_bottom_row show ?thesis by force
qed

text \<open>
  C10. The four functions of \<^verbatim>\<open>scripts/seg.py\<close> return what the functions of the same
  names in \<^verbatim>\<open>seg.py\<close> return, on every input, the state of the random source included.
\<close>

theorem copies_agree:
  "hex_to_bgr_s hex_color = hex_to_bgr hex_color \<and>
   classify_region_s m img = classify_region m img \<and>
   recommend_style_for_region_s region_type style lib rnd =
     recommend_style_for_region region_type style lib rnd \<and>
   apply_style_recommendations_s original_img masks style lib rnd =
     apply_style_recommendations original_img masks style lib rnd"
  by (simp add: hex_to_bgr_s_eq classify_region_s_eq recommend_s_eq
        apply_style_recommendations_s_def apply_style_recommendations_def style_loop_s_eq)

end
